theory Spec2Isabelle
  imports Main
begin

section \<open>The world outside the program\<close>

text \<open>
  The token counter is glue around two collaborators: the tokenizer library and the
  file system. Both are parameters of the model. A Python exception is a value: its
  class and the text \<open>str(e)\<close> that the handlers interpolate into messages.
  The classes are the ones the handlers of the two modules tell apart, and the ones the
  collaborators raise. A Python \<open>str\<close> is a HOL string, one \<open>char\<close> for each
  character, so that \<open>len\<close> is \<open>length\<close>; a count of tokens is a \<open>nat\<close>.
\<close>

datatype exn_class =
  KeyError | ValueError | UnicodeDecodeError | FileNotFoundError | PermissionError |
  IsADirectoryError | NotADirectoryError | OSError | NotImplementedError

datatype exn = Exn (cls: exn_class) (str: string)

text \<open>
  An encoder of the library: its name, the size of its vocabulary, and \<open>encode\<close>,
  which returns the token sequence of a text or raises.
\<close>

record encoder =
  name :: string
  n_vocab :: nat
  encode :: "string \<Rightarrow> exn + nat list"

record tiktoken =
  get_encoding :: "string \<Rightarrow> exn + encoder"
  encoding_for_model :: "string \<Rightarrow> exn + encoder"
  list_encoding_names :: "string list"

text \<open>
  Every call that reaches a collaborator is logged, in order, so that a statement about
  how often the encoder is resolved, or about what is handed to \<open>encode\<close>, is a
  statement about the log.
\<close>

datatype event =
  Get_encoding string
  | Encoding_for_model string
  | Encode string string
  | Read_text string

fun is_resolution :: "event \<Rightarrow> bool" where
  "is_resolution (Get_encoding _) = True"
| "is_resolution (Encoding_for_model _) = True"
| "is_resolution _ = False"

text \<open>Python's truth value of an \<open>Optional[str]\<close>: \<open>None\<close> and \<open>""\<close> are false.\<close>

fun truthy :: "string option \<Rightarrow> bool" where
  "truthy None = False"
| "truthy (Some s) = (s \<noteq> [])"

section \<open>Encoder resolution (both modules)\<close>

definition DEFAULT_MODEL :: string where
  "DEFAULT_MODEL = ''gpt-5''"

definition MODEL_ENCODINGS :: "(string \<times> string) list" where
  "MODEL_ENCODINGS =
    [(''gpt-5'', ''o200k_base''),
     (''gpt-4o'', ''o200k_base''),
     (''gpt-4o-mini'', ''o200k_base''),
     (''gpt-4-turbo'', ''cl100k_base''),
     (''gpt-4'', ''cl100k_base''),
     (''gpt-3.5-turbo'', ''cl100k_base''),
     (''text-embedding-3-small'', ''cl100k_base''),
     (''text-embedding-3-large'', ''cl100k_base''),
     (''text-embedding-ada-002'', ''cl100k_base'')]"

text \<open>\<open>MODEL_ENCODINGS[k]\<close>: a missing key raises \<open>KeyError\<close>.\<close>

definition subscript :: "(string \<times> string) list \<Rightarrow> string \<Rightarrow> exn + string" where
  "subscript d k = (case map_of d k of None \<Rightarrow> Inl (Exn KeyError k) | Some v \<Rightarrow> Inr v)"

definition call_get_encoding :: "tiktoken \<Rightarrow> string \<Rightarrow> (exn + encoder) \<times> event list" where
  "call_get_encoding lib n = (get_encoding lib n, [Get_encoding n])"

definition call_encoding_for_model :: "tiktoken \<Rightarrow> string \<Rightarrow> (exn + encoder) \<times> event list" where
  "call_encoding_for_model lib m = (encoding_for_model lib m, [Encoding_for_model m])"

definition call_encode :: "encoder \<Rightarrow> string \<Rightarrow> (exn + nat list) \<times> event list" where
  "call_encode enc text = (encode enc text, [Encode (name enc) text])"

text \<open>\<open>get_encoder\<close> of \<open>count_tokens.py\<close>.\<close>

definition get_encoder ::
  "tiktoken \<Rightarrow> string option \<Rightarrow> string option \<Rightarrow> (exn + encoder) \<times> event list" where
  "get_encoder lib model encoding =
    (if truthy encoding then call_get_encoding lib (the encoding)
     else if truthy model then
       (if the model \<in> fst ` set MODEL_ENCODINGS then
          (case subscript MODEL_ENCODINGS (the model) of
             Inl e \<Rightarrow> (Inl e, [])
           | Inr n \<Rightarrow> call_get_encoding lib n)
        else call_encoding_for_model lib (the model))
     else
       (case subscript MODEL_ENCODINGS DEFAULT_MODEL of
          Inl e \<Rightarrow> (Inl e, [])
        | Inr n \<Rightarrow> call_get_encoding lib n))"

text \<open>The same function and tables, as \<open>mcp_server.py\<close> repeats them.\<close>

definition mcp_DEFAULT_MODEL :: string where
  "mcp_DEFAULT_MODEL = ''gpt-5''"

definition mcp_MODEL_ENCODINGS :: "(string \<times> string) list" where
  "mcp_MODEL_ENCODINGS =
    [(''gpt-5'', ''o200k_base''),
     (''gpt-4o'', ''o200k_base''),
     (''gpt-4o-mini'', ''o200k_base''),
     (''gpt-4-turbo'', ''cl100k_base''),
     (''gpt-4'', ''cl100k_base''),
     (''gpt-3.5-turbo'', ''cl100k_base''),
     (''text-embedding-3-small'', ''cl100k_base''),
     (''text-embedding-3-large'', ''cl100k_base''),
     (''text-embedding-ada-002'', ''cl100k_base'')]"

definition mcp_get_encoder ::
  "tiktoken \<Rightarrow> string option \<Rightarrow> string option \<Rightarrow> (exn + encoder) \<times> event list" where
  "mcp_get_encoder lib model encoding =
    (if truthy encoding then call_get_encoding lib (the encoding)
     else if truthy model then
       (if the model \<in> fst ` set mcp_MODEL_ENCODINGS then
          (case subscript mcp_MODEL_ENCODINGS (the model) of
             Inl e \<Rightarrow> (Inl e, [])
           | Inr n \<Rightarrow> call_get_encoding lib n)
        else call_encoding_for_model lib (the model))
     else
       (case subscript mcp_MODEL_ENCODINGS mcp_DEFAULT_MODEL of
          Inl e \<Rightarrow> (Inl e, [])
        | Inr n \<Rightarrow> call_get_encoding lib n))"

section \<open>The file system\<close>

text \<open>
  What a path names, as the three calls of \<open>pathlib\<close> that the program makes see it.
  \<^item> \<open>Absent e\<close>: nothing. \<open>exists()\<close> and \<open>is_dir()\<close> answer \<open>False\<close>, and
    reading raises \<open>e\<close>: \<open>FileNotFoundError\<close> as a rule, \<open>NotADirectoryError\<close>
    for a path that goes through a regular file, \<open>ValueError\<close> for a path with a NUL
    byte.
  \<^item> \<open>Directory\<close>: \<open>exists()\<close> and \<open>is_dir()\<close> answer \<open>True\<close>, reading raises
    \<open>IsADirectoryError\<close>.
  \<^item> \<open>Regular r\<close>: a file; \<open>exists()\<close> answers \<open>True\<close>, \<open>is_dir()\<close>
    \<open>False\<close>, and reading it as UTF-8 text gives \<open>r\<close>, its content or an exception
    (permission denied, invalid UTF-8, another I/O error).
  \<^item> \<open>Unreachable e\<close>: the status of the path cannot be read, with an error that
    \<open>exists()\<close> and \<open>is_dir()\<close> do not swallow (a name that is too long, a directory
    on the way that may not be searched). All three calls raise \<open>e\<close>.

  \<open>glob\<close> is \<open>list(Path(".").glob(pattern))\<close>, which raises on a pattern it does
  not support. Paths are identified with their text \<open>str(path)\<close>.
\<close>

datatype node = Absent exn | Directory | Regular "exn + string" | Unreachable exn

record filesystem =
  node_at :: "string \<Rightarrow> node"
  glob :: "string \<Rightarrow> exn + string list"

text \<open>The name of a file as an \<open>OSError\<close> prints it (a name without quotes or escapes).\<close>

definition quoted :: "string \<Rightarrow> string" where
  "quoted p = [CHR 0x27] @ p @ [CHR 0x27]"

definition path_exists :: "filesystem \<Rightarrow> string \<Rightarrow> exn + bool" where
  "path_exists fs p =
    (case node_at fs p of
       Absent _ \<Rightarrow> Inr False
     | Directory \<Rightarrow> Inr True
     | Regular _ \<Rightarrow> Inr True
     | Unreachable e \<Rightarrow> Inl e)"

definition path_is_dir :: "filesystem \<Rightarrow> string \<Rightarrow> exn + bool" where
  "path_is_dir fs p =
    (case node_at fs p of
       Absent _ \<Rightarrow> Inr False
     | Directory \<Rightarrow> Inr True
     | Regular _ \<Rightarrow> Inr False
     | Unreachable e \<Rightarrow> Inl e)"

definition read_text :: "filesystem \<Rightarrow> string \<Rightarrow> (exn + string) \<times> event list" where
  "read_text fs p =
    ((case node_at fs p of
        Absent e \<Rightarrow> Inl e
      | Directory \<Rightarrow> Inl (Exn IsADirectoryError (''[Errno 21] Is a directory: '' @ quoted p))
      | Regular r \<Rightarrow> r
      | Unreachable e \<Rightarrow> Inl e),
     [Read_text p])"

section \<open>The command-line counter: \<open>count_tokens.py\<close>\<close>

definition count_tokens :: "string \<Rightarrow> encoder \<Rightarrow> (exn + nat) \<times> event list" where
  "count_tokens text enc =
    (case call_encode enc text of
       (Inl e, evs) \<Rightarrow> (Inl e, evs)
     | (Inr toks, evs) \<Rightarrow> (Inr (length toks), evs))"

text \<open>The \<open>except\<close> clauses of \<open>count_file_tokens\<close>, in the order of the source.\<close>

definition count_file_tokens_except :: "string \<Rightarrow> exn \<Rightarrow> nat \<times> string option" where
  "count_file_tokens_except filepath e =
    (if cls e = FileNotFoundError then (0, Some (''File not found: '' @ filepath))
     else if cls e = PermissionError then (0, Some (''Permission denied: '' @ filepath))
     else if cls e = UnicodeDecodeError then
       (0, Some (''Unable to decode file (not UTF-8): '' @ filepath))
     else (0, Some (''Error reading '' @ filepath @ '': '' @ str e)))"

definition count_file_tokens ::
  "filesystem \<Rightarrow> string \<Rightarrow> encoder \<Rightarrow> (nat \<times> string option) \<times> event list" where
  "count_file_tokens fs filepath enc =
    (case read_text fs filepath of
       (Inl e, evs) \<Rightarrow> (count_file_tokens_except filepath e, evs)
     | (Inr content, evs) \<Rightarrow>
         (case count_tokens content enc of
            (Inl e, evs') \<Rightarrow> (count_file_tokens_except filepath e, evs @ evs')
          | (Inr token_count, evs') \<Rightarrow> ((token_count, None), evs @ evs')))"

text \<open>\<open>format_number\<close>: \<open>f"{n:,}"\<close>, decimal digits in groups of three.\<close>

definition digit :: "nat \<Rightarrow> char" where
  "digit d = char_of (48 + d)"

definition three_digits :: "nat \<Rightarrow> string" where
  "three_digits n = [digit (n div 100 mod 10), digit (n div 10 mod 10), digit (n mod 10)]"

fun decimal :: "nat \<Rightarrow> string" where
  "decimal n = (if n < 10 then [digit n] else decimal (n div 10) @ [digit (n mod 10)])"

fun format_number :: "nat \<Rightarrow> string" where
  "format_number n =
    (if n < 1000 then decimal n
     else format_number (n div 1000) @ '','' @ three_digits (n mod 1000))"

definition ljust :: "nat \<Rightarrow> string \<Rightarrow> string" where
  "ljust w s = s @ replicate (w - length s) CHR '' ''"

definition rjust :: "nat \<Rightarrow> string \<Rightarrow> string" where
  "rjust w s = replicate (w - length s) CHR '' '' @ s"

text \<open>
  The state of the processing loops: the three accumulators of the source and the log
  of the calls made so far.
\<close>

record 'r progress =
  results :: "'r list"
  errors :: "string list"
  total_tokens :: nat
  trace :: "event list"

definition start :: "'r progress" where
  "start = \<lparr>results = [], errors = [], total_tokens = 0, trace = []\<rparr>"

text \<open>
  The inner loop of \<open>main\<close>: \<open>for file_path in files_to_process\<close>. The call
  \<open>file_path.is_dir()\<close> is outside any \<open>try\<close>: an exception it raises leaves the
  loop and \<open>main\<close>.
\<close>

fun process_files ::
  "filesystem \<Rightarrow> encoder \<Rightarrow> string list \<Rightarrow> (string \<times> nat) progress \<Rightarrow>
   exn + (string \<times> nat) progress" where
  "process_files fs enc [] st = Inr st"
| "process_files fs enc (file_path # rest) st =
    (case path_is_dir fs file_path of
       Inl e \<Rightarrow> Inl e
     | Inr True \<Rightarrow>
         process_files fs enc rest
           (st\<lparr>errors := errors st @ [''Skipping directory: '' @ file_path]\<rparr>)
     | Inr False \<Rightarrow>
         (case count_file_tokens fs file_path enc of
            ((token_count, error), evs) \<Rightarrow>
              if truthy error then
                process_files fs enc rest
                  (st\<lparr>errors := errors st @ [the error], trace := trace st @ evs\<rparr>)
              else
                process_files fs enc rest
                  (st\<lparr>results := results st @ [(file_path, token_count)],
                      total_tokens := total_tokens st + token_count,
                      trace := trace st @ evs\<rparr>)))"

text \<open>The outer loop: \<open>for filepath in args.files\<close>, with the glob expansion.\<close>

fun process_args ::
  "filesystem \<Rightarrow> encoder \<Rightarrow> string list \<Rightarrow> (string \<times> nat) progress \<Rightarrow>
   exn + (string \<times> nat) progress" where
  "process_args fs enc [] st = Inr st"
| "process_args fs enc (filepath # rest) st =
    (if CHR ''*'' \<in> set filepath then
       (case glob fs filepath of
          Inl e \<Rightarrow> Inl e
        | Inr expanded \<Rightarrow>
            if expanded = [] then
              process_args fs enc rest
                (st\<lparr>errors := errors st @ [''No files match pattern: '' @ filepath]\<rparr>)
            else
              (case process_files fs enc expanded st of
                 Inl e \<Rightarrow> Inl e
               | Inr st' \<Rightarrow> process_args fs enc rest st'))
     else
       (case process_files fs enc [filepath] st of
          Inl e \<Rightarrow> Inl e
        | Inr st' \<Rightarrow> process_args fs enc rest st'))"

text \<open>The parsed command line (\<open>args\<close>); \<open>--model\<close> defaults to \<open>DEFAULT_MODEL\<close>.\<close>

record args =
  args_files :: "string list"
  args_model :: string
  args_encoding :: "string option"
  args_verbose :: bool
  args_list_encodings :: bool

text \<open>
  How a run of \<open>main\<close> ends: it returns an exit code, having printed lines on the two
  streams; or \<open>parser.error\<close> ends the process with a usage message; or an exception
  leaves \<open>main\<close> uncaught and the interpreter prints a traceback.
\<close>

datatype outcome =
  Returned int "string list" "string list" "event list"
  | Usage string
  | Raised exn

text \<open>The process exit status, as \<open>sys.exit(main())\<close> and the interpreter give it.\<close>

fun exit_status :: "outcome \<Rightarrow> int" where
  "exit_status (Returned code _ _ _) = code"
| "exit_status (Usage _) = 2"
| "exit_status (Raised _) = 1"

fun complaints :: "outcome \<Rightarrow> string list" where
  "complaints (Returned _ _ err _) = err"
| "complaints _ = []"

fun calls :: "outcome \<Rightarrow> event list" where
  "calls (Returned _ _ _ evs) = evs"
| "calls _ = []"

text \<open>The loop of \<open>--list-encodings\<close>: one line for each encoding name.\<close>

fun list_lines :: "tiktoken \<Rightarrow> string list \<Rightarrow> exn + string list \<times> event list" where
  "list_lines lib [] = Inr ([], [])"
| "list_lines lib (n # ns) =
    (case call_get_encoding lib n of
       (Inl e, _) \<Rightarrow> Inl e
     | (Inr enc, evs) \<Rightarrow>
         (case list_lines lib ns of
            Inl e \<Rightarrow> Inl e
          | Inr (ls, evs') \<Rightarrow>
              Inr ((''  '' @ n @ '': vocab_size='' @ format_number (n_vocab enc)) # ls,
                   evs @ evs')))"

definition shown_path :: "string \<Rightarrow> string" where
  "shown_path path_str =
    (if length path_str > 60 then ''...'' @ drop (length path_str - 57) path_str
     else path_str)"

definition result_lines :: "(string \<times> nat) list \<Rightarrow> nat \<Rightarrow> string list" where
  "result_lines rs grand_total =
    (if rs = [] then []
     else
       (let max_path_len = min (Max (set (map (\<lambda>(fp, _). length fp) rs))) 60 in
          map (\<lambda>(fp, tokens).
                 ljust max_path_len (shown_path fp) @ ''  '' @
                 rjust 12 (format_number tokens) @ '' tokens'') rs
          @ (if length rs > 1 then
               [replicate (max_path_len + 14) CHR ''-'',
                ljust max_path_len ''Total'' @ ''  '' @
                rjust 12 (format_number grand_total) @ '' tokens'']
             else [])))"

definition error_lines :: "string list \<Rightarrow> string list" where
  "error_lines es = (if es = [] then [] else [[], ''Errors:''] @ map (\<lambda>e. ''  '' @ e) es)"

definition main :: "tiktoken \<Rightarrow> filesystem \<Rightarrow> args \<Rightarrow> outcome" where
  "main lib fs a =
    (if args_list_encodings a then
       (case list_lines lib (list_encoding_names lib) of
          Inl e \<Rightarrow> Raised e
        | Inr (ls, evs) \<Rightarrow>
            Returned 0
              ([''Available encodings:''] @ ls @ [[], ''Model to encoding mapping:''] @
               map (\<lambda>(model, encoding). ''  '' @ model @ '' -> '' @ encoding) MODEL_ENCODINGS)
              [] evs)
     else if args_files a = [] then
       Usage ''No files specified. Provide file path(s) or use --list-encodings.''
     else
       (case get_encoder lib (Some (args_model a)) (args_encoding a) of
          (Inl e, evs) \<Rightarrow>
            if cls e = KeyError then
              Returned 1
                [''Error: Unknown model or encoding: '' @ str e,
                 ''Use --list-encodings to see available options.'']
                [] evs
            else Raised e
        | (Inr encoder, evs) \<Rightarrow>
            (case process_args fs encoder (args_files a) start of
               Inl e \<Rightarrow> Raised e
             | Inr st \<Rightarrow>
                 Returned (if results st = [] \<and> errors st \<noteq> [] then 1 else 0)
                   ((if args_verbose a then
                       [''Using encoding: '' @ name encoder,
                        ''Vocabulary size: '' @ format_number (n_vocab encoder),
                        replicate 50 CHR ''-'']
                     else [])
                    @ result_lines (results st) (total_tokens st))
                   (error_lines (errors st))
                   (evs @ trace st))))"

section \<open>The tool server: \<open>mcp_server.py\<close>\<close>

text \<open>
  The tools return Python dictionaries. A dictionary is the list of its items in
  insertion order; \<open>map_of\<close> reads a key, and a key that is not in the list is absent.
\<close>

datatype pyval =
  PyNone
  | PyStr string
  | PyInt int
  | PyList "pyval list"
  | PyDict "(string \<times> pyval) list"

fun field :: "pyval \<Rightarrow> string \<Rightarrow> pyval option" where
  "field (PyDict items) k = map_of items k"
| "field _ k = None"

text \<open>
  A tool call either returns a value or lets an exception out of the tool function
  (\<open>Inl\<close>), together with the calls it made.
\<close>

type_synonym tool_result = "(exn + pyval) \<times> event list"

text \<open>The body of the \<open>try\<close> of \<open>count_tokens\<close>.\<close>

definition mcp_count_tokens_try ::
  "tiktoken \<Rightarrow> filesystem \<Rightarrow> string \<Rightarrow> string \<Rightarrow> tool_result" where
  "mcp_count_tokens_try lib fs file_path model =
    (case path_exists fs file_path of
       Inl e \<Rightarrow> (Inl e, [])
     | Inr False \<Rightarrow>
         (Inr (PyDict [(''error'', PyStr (''File not found: '' @ file_path)),
                       (''file_path'', PyStr file_path),
                       (''tokens'', PyInt 0)]), [])
     | Inr True \<Rightarrow>
         (case path_is_dir fs file_path of
            Inl e \<Rightarrow> (Inl e, [])
          | Inr True \<Rightarrow>
              (Inr (PyDict [(''error'', PyStr (''Path is a directory: '' @ file_path)),
                            (''file_path'', PyStr file_path),
                            (''tokens'', PyInt 0)]), [])
          | Inr False \<Rightarrow>
              (case mcp_get_encoder lib (Some model) None of
                 (Inl e, evs) \<Rightarrow> (Inl e, evs)
               | (Inr encoder, evs) \<Rightarrow>
                   (case read_text fs file_path of
                      (Inl e, evs') \<Rightarrow> (Inl e, evs @ evs')
                    | (Inr content, evs') \<Rightarrow>
                        (case call_encode encoder content of
                           (Inl e, evs'') \<Rightarrow> (Inl e, evs @ evs' @ evs'')
                         | (Inr toks, evs'') \<Rightarrow>
                             (Inr (PyDict [(''file_path'', PyStr file_path),
                                           (''tokens'', PyInt (int (length toks))),
                                           (''model'', PyStr model),
                                           (''encoding'', PyStr (name encoder))]),
                              evs @ evs' @ evs''))))))"

definition mcp_count_tokens ::
  "tiktoken \<Rightarrow> filesystem \<Rightarrow> string \<Rightarrow> string \<Rightarrow> tool_result" where
  "mcp_count_tokens lib fs file_path model =
    (case mcp_count_tokens_try lib fs file_path model of
       (Inr d, evs) \<Rightarrow> (Inr d, evs)
     | (Inl e, evs) \<Rightarrow>
         if cls e = UnicodeDecodeError then
           (Inr (PyDict [(''error'', PyStr (''Unable to decode file (not UTF-8): '' @ file_path)),
                         (''file_path'', PyStr file_path),
                         (''tokens'', PyInt 0)]), evs)
         else
           (Inr (PyDict [(''error'', PyStr (str e)),
                         (''file_path'', PyStr file_path),
                         (''tokens'', PyInt 0)]), evs))"

text \<open>The \<open>except\<close> clauses inside the loop of \<open>count_tokens_multi\<close>.\<close>

definition multi_except :: "string \<Rightarrow> exn \<Rightarrow> string" where
  "multi_except file_path e =
    (if cls e = UnicodeDecodeError then ''Unable to decode file (not UTF-8): '' @ file_path
     else ''Error reading '' @ file_path @ '': '' @ str e)"

text \<open>
  The loop of \<open>count_tokens_multi\<close>. Its whole body is inside the \<open>try\<close>, the calls
  of \<open>exists()\<close> and \<open>is_dir()\<close> included.
\<close>

fun multi_loop ::
  "filesystem \<Rightarrow> encoder \<Rightarrow> string list \<Rightarrow> pyval progress \<Rightarrow> pyval progress" where
  "multi_loop fs encoder [] st = st"
| "multi_loop fs encoder (file_path # rest) st =
    (case path_exists fs file_path of
       Inl e \<Rightarrow>
         multi_loop fs encoder rest
           (st\<lparr>errors := errors st @ [multi_except file_path e]\<rparr>)
     | Inr False \<Rightarrow>
         multi_loop fs encoder rest
           (st\<lparr>errors := errors st @ [''File not found: '' @ file_path]\<rparr>)
     | Inr True \<Rightarrow>
         (case path_is_dir fs file_path of
            Inl e \<Rightarrow>
              multi_loop fs encoder rest
                (st\<lparr>errors := errors st @ [multi_except file_path e]\<rparr>)
          | Inr True \<Rightarrow>
              multi_loop fs encoder rest
                (st\<lparr>errors := errors st @ [''Path is a directory: '' @ file_path]\<rparr>)
          | Inr False \<Rightarrow>
              (case read_text fs file_path of
                 (Inl e, evs) \<Rightarrow>
                   multi_loop fs encoder rest
                     (st\<lparr>errors := errors st @ [multi_except file_path e],
                         trace := trace st @ evs\<rparr>)
               | (Inr content, evs) \<Rightarrow>
                   (case call_encode encoder content of
                      (Inl e, evs') \<Rightarrow>
                        multi_loop fs encoder rest
                          (st\<lparr>errors := errors st @ [multi_except file_path e],
                              trace := trace st @ evs @ evs'\<rparr>)
                    | (Inr toks, evs') \<Rightarrow>
                        multi_loop fs encoder rest
                          (st\<lparr>results := results st @
                                [PyDict [(''file_path'', PyStr file_path),
                                         (''tokens'', PyInt (int (length toks)))]],
                              total_tokens := total_tokens st + length toks,
                              trace := trace st @ evs @ evs'\<rparr>)))))"

definition count_tokens_multi ::
  "tiktoken \<Rightarrow> filesystem \<Rightarrow> string list \<Rightarrow> string \<Rightarrow> tool_result" where
  "count_tokens_multi lib fs file_paths model =
    (case mcp_get_encoder lib (Some model) None of
       (Inl e, evs) \<Rightarrow> (Inl e, evs)
     | (Inr encoder, evs) \<Rightarrow>
         (let st = multi_loop fs encoder file_paths start in
            (Inr (PyDict [(''files'', PyList (results st)),
                          (''total_tokens'', PyInt (int (total_tokens st))),
                          (''file_count'', PyInt (int (length (results st)))),
                          (''model'', PyStr model),
                          (''encoding'', PyStr (name encoder)),
                          (''errors'',
                             if errors st = [] then PyNone
                             else PyList (map PyStr (errors st)))]),
             evs @ trace st)))"

definition count_text_tokens :: "tiktoken \<Rightarrow> string \<Rightarrow> string \<Rightarrow> tool_result" where
  "count_text_tokens lib text model =
    (case mcp_get_encoder lib (Some model) None of
       (Inl e, evs) \<Rightarrow> (Inl e, evs)
     | (Inr encoder, evs) \<Rightarrow>
         (case call_encode encoder text of
            (Inl e, evs') \<Rightarrow> (Inl e, evs @ evs')
          | (Inr toks, evs') \<Rightarrow>
              (Inr (PyDict [(''tokens'', PyInt (int (length toks))),
                            (''characters'', PyInt (int (length text))),
                            (''model'', PyStr model),
                            (''encoding'', PyStr (name encoder))]),
               evs @ evs')))"

fun encodings_loop :: "tiktoken \<Rightarrow> string list \<Rightarrow> exn + pyval list \<times> event list" where
  "encodings_loop lib [] = Inr ([], [])"
| "encodings_loop lib (n # ns) =
    (case call_get_encoding lib n of
       (Inl e, _) \<Rightarrow> Inl e
     | (Inr enc, evs) \<Rightarrow>
         (case encodings_loop lib ns of
            Inl e \<Rightarrow> Inl e
          | Inr (ds, evs') \<Rightarrow>
              Inr (PyDict [(''name'', PyStr n), (''vocab_size'', PyInt (int (n_vocab enc)))] # ds,
                   evs @ evs')))"

definition list_encodings :: "tiktoken \<Rightarrow> tool_result" where
  "list_encodings lib =
    (case encodings_loop lib (list_encoding_names lib) of
       Inl e \<Rightarrow> (Inl e, [])
     | Inr (encodings, evs) \<Rightarrow>
         (Inr (PyDict [(''encodings'', PyList encodings),
                       (''model_mappings'',
                          PyDict (map (\<lambda>(m, e). (m, PyStr e)) mcp_MODEL_ENCODINGS)),
                       (''default_model'', PyStr mcp_DEFAULT_MODEL)]),
          evs))"

section \<open>A concrete world\<close>

text \<open>
  A small library and file system on which the definitions are evaluated. The library
  follows the tokenizer's registry: \<open>get_encoding\<close> raises \<open>ValueError\<close> on a name
  it does not know, \<open>encoding_for_model\<close> raises \<open>KeyError\<close> on a model it cannot
  map. The encoders here give one token to each character. In the file system,
  \<open>a.txt/x\<close> goes through the regular file \<open>a.txt\<close>, and \<open>locked\<close> is a
  directory that may not be searched.
\<close>

definition demo_encoder :: "string \<Rightarrow> nat \<Rightarrow> encoder" where
  "demo_encoder n v = \<lparr>name = n, n_vocab = v, encode = (\<lambda>t. Inr (map of_char t))\<rparr>"

definition demo_tiktoken :: tiktoken where
  "demo_tiktoken =
    \<lparr>get_encoding = (\<lambda>n.
        if n = ''o200k_base'' then Inr (demo_encoder ''o200k_base'' 200019)
        else if n = ''cl100k_base'' then Inr (demo_encoder ''cl100k_base'' 100277)
        else if n = ''gpt2'' then Inr (demo_encoder ''gpt2'' 50257)
        else Inl (Exn ValueError (''Unknown encoding '' @ n))),
      encoding_for_model = (\<lambda>m.
        if m = ''gpt2'' then Inr (demo_encoder ''gpt2'' 50257)
        else Inl (Exn KeyError (''Could not automatically map '' @ m @ '' to a tokeniser.''))),
      list_encoding_names = [''gpt2'', ''cl100k_base'', ''o200k_base'']\<rparr>"

definition demo_fs :: filesystem where
  "demo_fs =
    \<lparr>node_at = (\<lambda>p.
        if p = ''a.txt'' then Regular (Inr ''hello world'')
        else if p = ''b.txt'' then Regular (Inr ''hi'')
        else if p = ''docs'' then Directory
        else if p = ''raw.bin'' then
          Regular (Inl (Exn UnicodeDecodeError ''invalid start byte''))
        else if p = ''a.txt/x'' then
          Absent (Exn NotADirectoryError (''[Errno 20] Not a directory: '' @ quoted p))
        else if p = ''locked/c.txt'' then
          Unreachable (Exn PermissionError (''[Errno 13] Permission denied: '' @ quoted p))
        else Absent (Exn FileNotFoundError (''[Errno 2] No such file or directory: '' @ quoted p))),
      glob = (\<lambda>pat.
        if pat = ''*.txt'' then Inr [''a.txt'', ''b.txt'']
        else if pat = ''/tmp/*'' then
          Inl (Exn NotImplementedError ''Non-relative patterns are unsupported'')
        else Inr [])\<rparr>"

section \<open>Notions used in the statements\<close>

text \<open>
  \<open>extend st d\<close> is the state \<open>st\<close> after the contributions \<open>d\<close> have been
  appended to its lists and added to its total.
\<close>

definition extend :: "'r progress \<Rightarrow> 'r progress \<Rightarrow> 'r progress" where
  "extend st d =
    st\<lparr>results := results st @ results d,
       errors := errors st @ errors d,
       total_tokens := total_tokens st + total_tokens d,
       trace := trace st @ trace d\<rparr>"

text \<open>The \<open>tokens\<close> entry of a result dictionary.\<close>

definition tokens_of :: "pyval \<Rightarrow> nat" where
  "tokens_of d = (case field d ''tokens'' of Some (PyInt n) \<Rightarrow> nat n | _ \<Rightarrow> 0)"

section \<open>Encoder resolution\<close>

lemma in_table_iff: "(m \<in> fst ` set d) = (map_of d m \<noteq> None)"
  by (simp add: map_of_eq_None_iff)

lemma default_encoding: "subscript MODEL_ENCODINGS DEFAULT_MODEL = Inr ''o200k_base''"
  by (simp add: subscript_def MODEL_ENCODINGS_def DEFAULT_MODEL_def)

lemma mcp_default_encoding: "subscript mcp_MODEL_ENCODINGS mcp_DEFAULT_MODEL = Inr ''o200k_base''"
  by (simp add: subscript_def mcp_MODEL_ENCODINGS_def mcp_DEFAULT_MODEL_def)

text \<open>
  Claim C1. An encoding name that is given (present and not empty) is resolved by the
  library's \<open>get_encoding\<close>, whatever the model argument is. Otherwise a given model
  name that is a key of the table is resolved through the encoding the table maps it
  to; a given model name that is not a key is handed to the library's
  \<open>encoding_for_model\<close>; and with neither given, the encoding of the default model,
  \<open>o200k_base\<close>, is resolved. Each case makes exactly that one library call. This
  holds for \<open>get_encoder\<close> of both modules.
\<close>

theorem get_encoder_precedence:
  "(e \<noteq> [] \<longrightarrow>
      get_encoder lib model (Some e) = (get_encoding lib e, [Get_encoding e]) \<and>
      mcp_get_encoder lib model (Some e) = (get_encoding lib e, [Get_encoding e])) \<and>
   (\<not> truthy encoding \<and> m \<noteq> [] \<and> map_of MODEL_ENCODINGS m = Some n \<longrightarrow>
      get_encoder lib (Some m) encoding = (get_encoding lib n, [Get_encoding n])) \<and>
   (\<not> truthy encoding \<and> m \<noteq> [] \<and> map_of mcp_MODEL_ENCODINGS m = Some n \<longrightarrow>
      mcp_get_encoder lib (Some m) encoding = (get_encoding lib n, [Get_encoding n])) \<and>
   (\<not> truthy encoding \<and> m \<noteq> [] \<and> map_of MODEL_ENCODINGS m = None \<longrightarrow>
      get_encoder lib (Some m) encoding = (encoding_for_model lib m, [Encoding_for_model m])) \<and>
   (\<not> truthy encoding \<and> m \<noteq> [] \<and> map_of mcp_MODEL_ENCODINGS m = None \<longrightarrow>
      mcp_get_encoder lib (Some m) encoding = (encoding_for_model lib m, [Encoding_for_model m])) \<and>
   (\<not> truthy encoding \<and> \<not> truthy model \<longrightarrow>
      get_encoder lib model encoding =
        (get_encoding lib ''o200k_base'', [Get_encoding ''o200k_base'']) \<and>
      mcp_get_encoder lib model encoding =
        (get_encoding lib ''o200k_base'', [Get_encoding ''o200k_base'']) \<and>
      map_of MODEL_ENCODINGS DEFAULT_MODEL = Some ''o200k_base'' \<and>
      map_of mcp_MODEL_ENCODINGS mcp_DEFAULT_MODEL = Some ''o200k_base'')"
proof -
  have c1: "e \<noteq> [] \<Longrightarrow> get_encoder lib model (Some e) = (get_encoding lib e, [Get_encoding e])"
    by (simp add: get_encoder_def call_get_encoding_def)
  have c1': "e \<noteq> [] \<Longrightarrow> mcp_get_encoder lib model (Some e) = (get_encoding lib e, [Get_encoding e])"
    by (simp add: mcp_get_encoder_def call_get_encoding_def)
  have c2: "\<not> truthy encoding \<Longrightarrow> m \<noteq> [] \<Longrightarrow> map_of MODEL_ENCODINGS m = Some n \<Longrightarrow>
      get_encoder lib (Some m) encoding = (get_encoding lib n, [Get_encoding n])"
    by (simp add: get_encoder_def in_table_iff subscript_def call_get_encoding_def)
  have c2': "\<not> truthy encoding \<Longrightarrow> m \<noteq> [] \<Longrightarrow> map_of mcp_MODEL_ENCODINGS m = Some n \<Longrightarrow>
      mcp_get_encoder lib (Some m) encoding = (get_encoding lib n, [Get_encoding n])"
    by (simp add: mcp_get_encoder_def in_table_iff subscript_def call_get_encoding_def)
  have c3: "\<not> truthy encoding \<Longrightarrow> m \<noteq> [] \<Longrightarrow> map_of MODEL_ENCODINGS m = None \<Longrightarrow>
      get_encoder lib (Some m) encoding = (encoding_for_model lib m, [Encoding_for_model m])"
    by (simp add: get_encoder_def in_table_iff call_encoding_for_model_def)
  have c3': "\<not> truthy encoding \<Longrightarrow> m \<noteq> [] \<Longrightarrow> map_of mcp_MODEL_ENCODINGS m = None \<Longrightarrow>
      mcp_get_encoder lib (Some m) encoding = (encoding_for_model lib m, [Encoding_for_model m])"
    by (simp add: mcp_get_encoder_def in_table_iff call_encoding_for_model_def)
  have c4: "\<not> truthy encoding \<Longrightarrow> \<not> truthy model \<Longrightarrow>
      get_encoder lib model encoding =
        (get_encoding lib ''o200k_base'', [Get_encoding ''o200k_base''])"
    by (simp add: get_encoder_def default_encoding call_get_encoding_def)
  have c4': "\<not> truthy encoding \<Longrightarrow> \<not> truthy model \<Longrightarrow>
      mcp_get_encoder lib model encoding =
        (get_encoding lib ''o200k_base'', [Get_encoding ''o200k_base''])"
    by (simp add: mcp_get_encoder_def mcp_default_encoding call_get_encoding_def)
  have d: "map_of MODEL_ENCODINGS DEFAULT_MODEL = Some ''o200k_base''"
    by (simp add: MODEL_ENCODINGS_def DEFAULT_MODEL_def)
  have d': "map_of mcp_MODEL_ENCODINGS mcp_DEFAULT_MODEL = Some ''o200k_base''"
    by (simp add: mcp_MODEL_ENCODINGS_def mcp_DEFAULT_MODEL_def)
  show ?thesis
    using c1 c1' c2 c2' c3 c3' c4 c4' d d' by blast
qed

theorem get_encoder_precedence_witness:
  "fst (get_encoder demo_tiktoken (Some ''gpt-4'') (Some ''gpt2'')) = Inr (demo_encoder ''gpt2'' 50257) \<and>
   snd (mcp_get_encoder demo_tiktoken (Some ''gpt-4'') (Some ''gpt2'')) = [Get_encoding ''gpt2''] \<and>
   fst (get_encoder demo_tiktoken (Some ''gpt-4'') None) = Inr (demo_encoder ''cl100k_base'' 100277) \<and>
   snd (mcp_get_encoder demo_tiktoken (Some ''gpt-4'') (Some [])) = [Get_encoding ''cl100k_base''] \<and>
   get_encoder demo_tiktoken (Some ''gpt2'') None =
     (Inr (demo_encoder ''gpt2'' 50257), [Encoding_for_model ''gpt2'']) \<and>
   snd (mcp_get_encoder demo_tiktoken (Some ''davinci'') None) = [Encoding_for_model ''davinci''] \<and>
   get_encoder demo_tiktoken None None =
     (Inr (demo_encoder ''o200k_base'' 200019), [Get_encoding ''o200k_base''])"
  using get_encoder_precedence [of "''gpt2''" demo_tiktoken "Some ''gpt-4''" None "''gpt-4''" "''cl100k_base''"]
    get_encoder_precedence [of "''gpt2''" demo_tiktoken None "Some []" "''gpt-4''" "''cl100k_base''"]
    get_encoder_precedence [of "''gpt2''" demo_tiktoken None None "''gpt2''" "''cl100k_base''"]
    get_encoder_precedence [of "''gpt2''" demo_tiktoken None None "''davinci''" "''cl100k_base''"]
  by (simp add: MODEL_ENCODINGS_def mcp_MODEL_ENCODINGS_def demo_tiktoken_def)

section \<open>The processing loops\<close>

lemma extend_start [simp]: "extend st start = st"
  by (simp add: extend_def start_def)

lemma start_extend [simp]: "extend start d = d"
  by (simp add: extend_def start_def)

lemma extend_assoc: "extend (extend a b) c = extend a (extend b c)"
  by (simp add: extend_def)

lemma extend_sel [simp]:
  "results (extend a b) = results a @ results b"
  "errors (extend a b) = errors a @ errors b"
  "total_tokens (extend a b) = total_tokens a + total_tokens b"
  "trace (extend a b) = trace a @ trace b"
  by (simp_all add: extend_def)

lemma start_sel [simp]:
  "results start = []" "errors start = []" "total_tokens start = 0" "trace start = []"
  by (simp_all add: start_def)

subsection \<open>The loop of the tool\<close>

lemma multi_loop_step:
  "multi_loop fs enc (p # rest) st =
     multi_loop fs enc rest (extend st (multi_loop fs enc [p] start))"
  by (simp add: extend_def start_def split: prod.splits sum.splits bool.splits)

lemma multi_loop_append:
  "multi_loop fs enc (xs @ ys) st = multi_loop fs enc ys (multi_loop fs enc xs st)"
  by (induction xs arbitrary: st) (simp_all split: prod.splits sum.splits bool.splits)

lemma multi_loop_extend:
  "multi_loop fs enc ps st = extend st (multi_loop fs enc ps start)"
proof (induction ps arbitrary: st)
  case Nil
  show ?case by simp
next
  case (Cons p ps)
  have "multi_loop fs enc (p # ps) st =
          multi_loop fs enc ps (extend st (multi_loop fs enc [p] start))"
    by (rule multi_loop_step)
  also have "\<dots> = extend (extend st (multi_loop fs enc [p] start)) (multi_loop fs enc ps start)"
    by (rule Cons.IH)
  also have "\<dots> = extend st (extend (multi_loop fs enc [p] start) (multi_loop fs enc ps start))"
    by (rule extend_assoc)
  also have "extend (multi_loop fs enc [p] start) (multi_loop fs enc ps start) =
               multi_loop fs enc ps (multi_loop fs enc [p] start)"
    by (rule Cons.IH [symmetric])
  also have "\<dots> = multi_loop fs enc (p # ps) start"
    by (simp only: multi_loop_step [of fs enc p ps start] start_extend)
  finally show ?case .
qed

lemma multi_loop_Cons:
  "multi_loop fs enc (p # ps) start =
     extend (multi_loop fs enc [p] start) (multi_loop fs enc ps start)"
  by (metis multi_loop_step multi_loop_extend start_extend)

lemma multi_loop_concat:
  "results (multi_loop fs enc ps start) =
     concat (map (\<lambda>p. results (multi_loop fs enc [p] start)) ps) \<and>
   errors (multi_loop fs enc ps start) =
     concat (map (\<lambda>p. errors (multi_loop fs enc [p] start)) ps) \<and>
   total_tokens (multi_loop fs enc ps start) =
     sum_list (map (\<lambda>p. total_tokens (multi_loop fs enc [p] start)) ps) \<and>
   trace (multi_loop fs enc ps start) =
     concat (map (\<lambda>p. trace (multi_loop fs enc [p] start)) ps)"
proof (induction ps)
  case Nil
  show ?case by simp
next
  case (Cons p ps)
  show ?case
    unfolding multi_loop_Cons [of fs enc p ps] using Cons.IH by simp
qed

lemma tokens_of_entry [simp]:
  "tokens_of (PyDict [(''file_path'', PyStr p), (''tokens'', PyInt (int n))]) = n"
  by (simp add: tokens_of_def)




lemma multi_loop_single_trace:
  "ev \<in> set (trace (multi_loop fs enc [p] start)) \<Longrightarrow>
   ev = Read_text p \<or> (\<exists>t. ev = Encode (name enc) t)"
  by (auto simp add: read_text_def call_encode_def
      split: prod.splits sum.splits if_splits bool.splits)

lemma multi_loop_trace:
  "ev \<in> set (trace (multi_loop fs enc ps start)) \<Longrightarrow>
   (\<exists>p\<in>set ps. ev = Read_text p) \<or> (\<exists>t. ev = Encode (name enc) t)"
  using multi_loop_single_trace [of ev fs enc]
  by (auto simp add: multi_loop_concat [of fs enc ps])

lemma multi_loop_no_resolution:
  "filter is_resolution (trace (multi_loop fs enc ps start)) = []"
proof -
  have "\<not> is_resolution ev" if "ev \<in> set (trace (multi_loop fs enc ps start))" for ev
    using multi_loop_trace [OF that] by auto
  then show ?thesis
    by (simp add: filter_empty_conv)
qed

lemma multi_loop_append_start:
  "results (multi_loop fs enc (xs @ ys) start) =
     results (multi_loop fs enc xs start) @ results (multi_loop fs enc ys start) \<and>
   errors (multi_loop fs enc (xs @ ys) start) =
     errors (multi_loop fs enc xs start) @ errors (multi_loop fs enc ys start)"
  by (simp add: multi_loop_concat [of fs enc "xs @ ys"]
      multi_loop_concat [of fs enc xs] multi_loop_concat [of fs enc ys])

subsection \<open>The loops of the command line\<close>

lemma count_file_tokens_events:
  "snd (count_file_tokens fs p enc) = [Read_text p] \<or>
   (\<exists>t. snd (count_file_tokens fs p enc) = [Read_text p, Encode (name enc) t])"
  by (auto simp add: count_file_tokens_def read_text_def count_tokens_def call_encode_def
      split: prod.splits sum.splits node.splits)

text \<open>What one file does to the state, when \<open>is_dir()\<close> answers.\<close>

lemma process_files_step:
  "process_files fs enc (p # rest) st =
     (case process_files fs enc [p] start of
        Inl e \<Rightarrow> Inl e
      | Inr d \<Rightarrow> process_files fs enc rest (extend st d))"
  by (simp add: extend_def start_def split: prod.splits sum.splits bool.splits)

lemma process_files_append:
  "process_files fs enc (xs @ ys) st =
     (case process_files fs enc xs st of
        Inl e \<Rightarrow> Inl e
      | Inr st' \<Rightarrow> process_files fs enc ys st')"
  by (induction xs arbitrary: st) (simp_all split: prod.splits sum.splits bool.splits)

lemma process_files_single:
  "process_files fs enc [p] start = Inr d \<Longrightarrow>
   (\<exists>n. results d = [(p, n)] \<and> errors d = [] \<and> total_tokens d = n) \<or>
   (\<exists>msg. results d = [] \<and> errors d = [msg] \<and> total_tokens d = 0)"
  by (auto split: prod.splits sum.splits bool.splits if_splits)

lemma process_files_single_trace:
  "process_files fs enc [p] start = Inr d \<Longrightarrow> ev \<in> set (trace d) \<Longrightarrow>
   ev = Read_text p \<or> (\<exists>t. ev = Encode (name enc) t)"
  using count_file_tokens_events [of fs p enc]
  by (auto split: prod.splits sum.splits bool.splits if_splits)

lemma process_files_completed:
  "process_files fs enc ps st = Inr st' \<Longrightarrow>
   \<exists>d. st' = extend st d \<and>
       total_tokens d = sum_list (map snd (results d)) \<and>
       length (results d) + length (errors d) = length ps \<and>
       (\<forall>ev\<in>set (trace d). (\<exists>p\<in>set ps. ev = Read_text p) \<or> (\<exists>t. ev = Encode (name enc) t))"
proof (induction ps arbitrary: st)
  case Nil
  then have "st' = extend st start" by simp
  then show ?case by (intro exI [of _ start]) simp
next
  case (Cons p ps)
  have unfolded: "(case process_files fs enc [p] start of
        Inl e \<Rightarrow> Inl e
      | Inr d \<Rightarrow> process_files fs enc ps (extend st d)) = Inr st'"
    using Cons.prems by (simp only: process_files_step [of fs enc p ps st])
  obtain d1 where d1: "process_files fs enc [p] start = Inr d1"
    and rest: "process_files fs enc ps (extend st d1) = Inr st'"
  proof (cases "process_files fs enc [p] start")
    case (Inl e)
    with unfolded show ?thesis by (simp only: sum.case) simp
  next
    case (Inr d)
    with unfolded have "process_files fs enc ps (extend st d) = Inr st'"
      by (simp only: sum.case)
    with Inr that show ?thesis by blast
  qed
  from Cons.IH [OF rest] obtain d2 where d2: "st' = extend (extend st d1) d2"
    "total_tokens d2 = sum_list (map snd (results d2))"
    "length (results d2) + length (errors d2) = length ps"
    "\<forall>ev\<in>set (trace d2). (\<exists>p\<in>set ps. ev = Read_text p) \<or> (\<exists>t. ev = Encode (name enc) t)"
    by blast
  have s1: "total_tokens d1 = sum_list (map snd (results d1))"
    "length (results d1) + length (errors d1) = 1"
    using process_files_single [OF d1] by auto
  have t1: "\<forall>ev\<in>set (trace d1). ev = Read_text p \<or> (\<exists>t. ev = Encode (name enc) t)"
    using process_files_single_trace [OF d1] by blast
  show ?case
  proof (intro exI [of _ "extend d1 d2"] conjI)
    show "st' = extend st (extend d1 d2)"
      using d2(1) by (simp add: extend_assoc)
    show "total_tokens (extend d1 d2) = sum_list (map snd (results (extend d1 d2)))"
      using s1(1) d2(2) by simp
    show "length (results (extend d1 d2)) + length (errors (extend d1 d2)) = length (p # ps)"
      using s1(2) d2(3) by simp
    show "\<forall>ev\<in>set (trace (extend d1 d2)).
        (\<exists>q\<in>set (p # ps). ev = Read_text q) \<or> (\<exists>t. ev = Encode (name enc) t)"
      using t1 d2(4) by auto
  qed
qed


lemma process_files_keeps:
  assumes "process_files fs enc ps st = Inr st'"
  shows "total_tokens st = sum_list (map snd (results st)) \<longrightarrow>
           total_tokens st' = sum_list (map snd (results st'))"
    and "filter is_resolution (trace st') = filter is_resolution (trace st)"
    and "length (results st') + length (errors st') =
           length (results st) + length (errors st) + length ps"
proof -
  obtain d where d: "st' = extend st d"
    "total_tokens d = sum_list (map snd (results d))"
    "length (results d) + length (errors d) = length ps"
    "\<forall>ev\<in>set (trace d). (\<exists>p\<in>set ps. ev = Read_text p) \<or> (\<exists>t. ev = Encode (name enc) t)"
    using process_files_completed [OF assms] by blast
  show "total_tokens st = sum_list (map snd (results st)) \<longrightarrow>
           total_tokens st' = sum_list (map snd (results st'))"
    using d(1,2) by simp
  have "\<not> is_resolution ev" if "ev \<in> set (trace d)" for ev
    using d(4) that by auto
  then have "filter is_resolution (trace d) = []"
    by (simp add: filter_empty_conv)
  then show "filter is_resolution (trace st') = filter is_resolution (trace st)"
    using d(1) by simp
  show "length (results st') + length (errors st') =
           length (results st) + length (errors st) + length ps"
    using d(1,3) by simp
qed

lemma process_args_keeps:
  "process_args fs enc as st = Inr st' \<Longrightarrow>
   (total_tokens st = sum_list (map snd (results st)) \<longrightarrow>
      total_tokens st' = sum_list (map snd (results st'))) \<and>
   filter is_resolution (trace st') = filter is_resolution (trace st)"
proof (induction as arbitrary: st)
  case Nil
  then show ?case by simp
next
  case (Cons a as)
  show ?case
  proof (cases "CHR ''*'' \<in> set a")
    case False
    with Cons.prems obtain st1 where st1: "process_files fs enc [a] st = Inr st1"
      and rest: "process_args fs enc as st1 = Inr st'"
      by (cases "process_files fs enc [a] st")
         (simp_all del: process_files.simps)
    show ?thesis
      using Cons.IH [OF rest] process_files_keeps(1,2) [OF st1] by simp
  next
    case True
    show ?thesis
    proof (cases "glob fs a")
      case (Inl e)
      with True Cons.prems show ?thesis by simp
    next
      case (Inr expanded)
      show ?thesis
      proof (cases "expanded = []")
        case True
        with \<open>CHR ''*'' \<in> set a\<close> Inr Cons.prems
        have "process_args fs enc as
                (st\<lparr>errors := errors st @ [''No files match pattern: '' @ a]\<rparr>) = Inr st'"
          by simp
        from Cons.IH [OF this] show ?thesis by simp
      next
        case False
        with \<open>CHR ''*'' \<in> set a\<close> Inr Cons.prems
        obtain st1 where st1: "process_files fs enc expanded st = Inr st1"
          and rest: "process_args fs enc as st1 = Inr st'"
          by (cases "process_files fs enc expanded st")
             (simp_all del: process_files.simps)
        show ?thesis
          using Cons.IH [OF rest] process_files_keeps(1,2) [OF st1] by simp
      qed
    qed
  qed
qed

lemma process_args_plain:
  "\<forall>a\<in>set as. CHR ''*'' \<notin> set a \<Longrightarrow>
   process_args fs enc as st = process_files fs enc as st"
proof (induction as arbitrary: st)
  case Nil
  show ?case by simp
next
  case (Cons a as)
  have "process_files fs enc (a # as) st =
      (case process_files fs enc [a] st of
         Inl e \<Rightarrow> Inl e
       | Inr st' \<Rightarrow> process_files fs enc as st')"
    using process_files_append [of fs enc "[a]" as st] by simp
  moreover have "process_args fs enc (a # as) st =
      (case process_files fs enc [a] st of
         Inl e \<Rightarrow> Inl e
       | Inr st' \<Rightarrow> process_files fs enc as st')"
    using Cons by (simp del: process_files.simps split: sum.splits)
  ultimately show ?case by simp
qed

lemma count_tokens_multi_resolved:
  assumes "fst (mcp_get_encoder lib (Some model) None) = Inr enc"
  shows "fst (count_tokens_multi lib fs file_paths model) =
     Inr (PyDict
       [(''files'', PyList (results (multi_loop fs enc file_paths start))),
        (''total_tokens'', PyInt (int (total_tokens (multi_loop fs enc file_paths start)))),
        (''file_count'', PyInt (int (length (results (multi_loop fs enc file_paths start))))),
        (''model'', PyStr model),
        (''encoding'', PyStr (name enc)),
        (''errors'',
           if errors (multi_loop fs enc file_paths start) = [] then PyNone
           else PyList (map PyStr (errors (multi_loop fs enc file_paths start))))])"
proof -
  obtain evs where "mcp_get_encoder lib (Some model) None = (Inr enc, evs)"
    using assms by (cases "mcp_get_encoder lib (Some model) None") simp
  then show ?thesis
    by (simp add: count_tokens_multi_def Let_def)
qed



lemma subscript_Some: "map_of d k = Some v \<Longrightarrow> subscript d k = Inr v"
  by (simp add: subscript_def)

lemma get_encoder_one_call:
  "length (filter is_resolution (snd (get_encoder lib model encoding))) = 1"
  by (auto simp add: get_encoder_def in_table_iff subscript_Some
      call_get_encoding_def call_encoding_for_model_def default_encoding)

lemma mcp_get_encoder_one_call:
  "length (filter is_resolution (snd (mcp_get_encoder lib model encoding))) = 1"
  by (auto simp add: mcp_get_encoder_def in_table_iff subscript_Some
      call_get_encoding_def call_encoding_for_model_def mcp_default_encoding)

lemma count_tokens_multi_one_call:
  "length (filter is_resolution (snd (count_tokens_multi lib fs file_paths model))) = 1"
proof (cases "mcp_get_encoder lib (Some model) None")
  case (Pair r evs)
  have one: "length (filter is_resolution evs) = 1"
    using mcp_get_encoder_one_call [of lib "Some model" None] Pair by simp
  show ?thesis
  proof (cases r)
    case (Inl e)
    with Pair one show ?thesis by (simp add: count_tokens_multi_def)
  next
    case (Inr enc)
    with Pair one show ?thesis
      by (simp add: count_tokens_multi_def Let_def multi_loop_no_resolution)
  qed
qed

lemma main_one_call:
  assumes "\<not> args_list_encodings a" and "args_files a \<noteq> []"
    and "main lib fs a = Returned code out err evs"
  shows "length (filter is_resolution evs) = 1"
proof (cases "get_encoder lib (Some (args_model a)) (args_encoding a)")
  case (Pair r evs0)
  have one: "length (filter is_resolution evs0) = 1"
    using get_encoder_one_call [of lib "Some (args_model a)" "args_encoding a"] Pair by simp
  show ?thesis
  proof (cases r)
    case (Inl e)
    with Pair assms one show ?thesis
      by (simp add: main_def split: if_splits)
  next
    case (Inr enc)
    show ?thesis
    proof (cases "process_args fs enc (args_files a) start")
      case (Inl e)
      with Pair \<open>r = Inr enc\<close> assms show ?thesis by (simp add: main_def)
    next
      case (Inr st)
      have "filter is_resolution (trace st) = []"
        using process_args_keeps [OF Inr] by simp
      moreover have "evs = evs0 @ trace st"
        using Pair \<open>r = Inr enc\<close> Inr assms by (simp add: main_def)
      ultimately show ?thesis using one by simp
    qed
  qed
qed

lemma count_tokens_multi_events:
  assumes "fst (mcp_get_encoder lib (Some model) None) = Inr enc"
  shows "snd (count_tokens_multi lib fs file_paths model) =
     snd (mcp_get_encoder lib (Some model) None) @ trace (multi_loop fs enc file_paths start)"
proof -
  obtain evs where "mcp_get_encoder lib (Some model) None = (Inr enc, evs)"
    using assms by (cases "mcp_get_encoder lib (Some model) None") simp
  then show ?thesis
    by (simp add: count_tokens_multi_def Let_def)
qed



section \<open>The concrete world, evaluated\<close>

lemma demo_gpt4: "mcp_get_encoder demo_tiktoken (Some ''gpt-4'') None =
    (Inr (demo_encoder ''cl100k_base'' 100277), [Get_encoding ''cl100k_base''])"
  by (simp add: mcp_get_encoder_def mcp_MODEL_ENCODINGS_def subscript_def
      call_get_encoding_def demo_tiktoken_def)

lemma demo_cli_gpt4: "get_encoder demo_tiktoken (Some ''gpt-4'') None =
    (Inr (demo_encoder ''cl100k_base'' 100277), [Get_encoding ''cl100k_base''])"
  by (simp add: get_encoder_def MODEL_ENCODINGS_def subscript_def
      call_get_encoding_def demo_tiktoken_def)

lemma demo_nodes:
  "node_at demo_fs ''a.txt'' = Regular (Inr ''hello world'')"
  "node_at demo_fs ''b.txt'' = Regular (Inr ''hi'')"
  "node_at demo_fs ''docs'' = Directory"
  "node_at demo_fs ''raw.bin'' = Regular (Inl (Exn UnicodeDecodeError ''invalid start byte''))"
  "node_at demo_fs ''missing.txt'' =
     Absent (Exn FileNotFoundError
       (''[Errno 2] No such file or directory: '' @ quoted ''missing.txt''))"
  "node_at demo_fs ''a.txt/x'' =
     Absent (Exn NotADirectoryError (''[Errno 20] Not a directory: '' @ quoted ''a.txt/x''))"
  "node_at demo_fs ''locked/c.txt'' =
     Unreachable (Exn PermissionError
       (''[Errno 13] Permission denied: '' @ quoted ''locked/c.txt''))"
  by (simp_all add: demo_fs_def)


lemma demo_process_files:
  "process_files demo_fs (demo_encoder ''cl100k_base'' 100277)
     [''a.txt'', ''missing.txt'', ''b.txt''] start =
      Inr \<lparr>results = [(''a.txt'', 11), (''b.txt'', 2)],
       errors = [''File not found: missing.txt''],
       total_tokens = 13,
       trace = [Read_text ''a.txt'', Encode ''cl100k_base'' ''hello world'',
                Read_text ''missing.txt'',
                Read_text ''b.txt'', Encode ''cl100k_base'' ''hi'']\<rparr>"
  by (simp add: path_is_dir_def read_text_def call_encode_def count_file_tokens_def
      count_tokens_def count_file_tokens_except_def demo_nodes demo_encoder_def start_def)

lemma demo_process_args:
  "process_args demo_fs (demo_encoder ''cl100k_base'' 100277)
     [''a.txt'', ''missing.txt'', ''b.txt''] start =
      Inr \<lparr>results = [(''a.txt'', 11), (''b.txt'', 2)],
       errors = [''File not found: missing.txt''],
       total_tokens = 13,
       trace = [Read_text ''a.txt'', Encode ''cl100k_base'' ''hello world'',
                Read_text ''missing.txt'',
                Read_text ''b.txt'', Encode ''cl100k_base'' ''hi'']\<rparr>"
proof -
  have "process_args demo_fs (demo_encoder ''cl100k_base'' 100277)
          [''a.txt'', ''missing.txt'', ''b.txt''] start =
        process_files demo_fs (demo_encoder ''cl100k_base'' 100277)
          [''a.txt'', ''missing.txt'', ''b.txt''] start"
    by (rule process_args_plain) simp
  then show ?thesis
    by (simp only: demo_process_files)
qed

lemma demo_main:
  "main demo_tiktoken demo_fs
     \<lparr>args_files = [''a.txt'', ''missing.txt'', ''b.txt''], args_model = ''gpt-4'',
       args_encoding = None, args_verbose = False, args_list_encodings = False\<rparr> =
   Returned 0 (result_lines [(''a.txt'', 11), (''b.txt'', 2)] 13)
     (error_lines [''File not found: missing.txt''])
     [Get_encoding ''cl100k_base'', Read_text ''a.txt'',
      Encode ''cl100k_base'' ''hello world'', Read_text ''missing.txt'',
      Read_text ''b.txt'', Encode ''cl100k_base'' ''hi'']"
  by (simp add: main_def demo_cli_gpt4 demo_process_args
      del: process_args.simps process_files.simps)


text \<open>What the tool's loop guarantees, for the comparison with the command line.\<close>

lemma multi_loop_continues:
  "multi_loop fs enc (xs @ ys) st = multi_loop fs enc ys (multi_loop fs enc xs st) \<and>
   results (multi_loop fs enc (xs @ ys) start) =
     results (multi_loop fs enc xs start) @ results (multi_loop fs enc ys start) \<and>
   errors (multi_loop fs enc (xs @ ys) start) =
     errors (multi_loop fs enc xs start) @ errors (multi_loop fs enc ys start)"
  using multi_loop_append [of fs enc xs ys st] multi_loop_append_start [of fs enc xs ys]
  by simp

lemma process_files_aborts:
  "node_at fs p = Unreachable e \<Longrightarrow> process_files fs enc (p # rest) st = Inl e"
  by (simp add: path_is_dir_def)

lemma main_aborts:
  assumes "\<not> args_list_encodings a" and "args_files a = p # rest"
    and "CHR ''*'' \<notin> set p" and "node_at fs p = Unreachable e"
    and "get_encoder lib (Some (args_model a)) (args_encoding a) = (Inr enc, evs)"
  shows "main lib fs a = Raised e"
proof -
  have "process_files fs enc [p] start = Inl e"
    using assms(4) by (rule process_files_aborts)
  then have "process_args fs enc (p # rest) start = Inl e"
    using assms(3) by (simp del: process_files.simps)
  then show ?thesis
    using assms(1,2,5) by (simp add: main_def del: process_args.simps)
qed

text \<open>
  Claim C4. In \<open>main\<close> the call \<open>file_path.is_dir()\<close> stands outside any
  \<open>try\<close>. On a path whose status cannot be read (here a file under a directory that
  may not be searched) the exception leaves the loop and \<open>main\<close>: the file after it
  is not processed and nothing is reported. On the same list the tool
  \<open>count_tokens_multi\<close>, whose \<open>try\<close> holds the whole body of the loop, records
  the failure as an error and counts the file after it.
\<close>

theorem main_stops_at_unreadable_status:
  "main demo_tiktoken demo_fs
     \<lparr>args_files = [''locked/c.txt'', ''b.txt''], args_model = ''gpt-4'',
      args_encoding = None, args_verbose = False, args_list_encodings = False\<rparr> =
     Raised (Exn PermissionError (''[Errno 13] Permission denied: '' @ quoted ''locked/c.txt'')) \<and>
   fst (count_tokens_multi demo_tiktoken demo_fs [''locked/c.txt'', ''b.txt''] ''gpt-4'') =
     Inr (PyDict
       [(''files'', PyList [PyDict [(''file_path'', PyStr ''b.txt''), (''tokens'', PyInt 2)]]),
        (''total_tokens'', PyInt 2),
        (''file_count'', PyInt 1),
        (''model'', PyStr ''gpt-4''),
        (''encoding'', PyStr ''cl100k_base''),
        (''errors'', PyList [PyStr (''Error reading locked/c.txt: [Errno 13] Permission denied: ''
                                     @ quoted ''locked/c.txt'')])])"
proof
  show "main demo_tiktoken demo_fs
     \<lparr>args_files = [''locked/c.txt'', ''b.txt''], args_model = ''gpt-4'',
      args_encoding = None, args_verbose = False, args_list_encodings = False\<rparr> =
     Raised (Exn PermissionError (''[Errno 13] Permission denied: '' @ quoted ''locked/c.txt''))"
    by (rule main_aborts [where p = "''locked/c.txt''" and rest = "[''b.txt'']"
          and enc = "demo_encoder ''cl100k_base'' 100277"
          and evs = "[Get_encoding ''cl100k_base'']"])
       (simp_all add: demo_nodes demo_cli_gpt4)
  have m: "multi_loop demo_fs (demo_encoder ''cl100k_base'' 100277)
      [''locked/c.txt'', ''b.txt''] start =
      \<lparr>results = [PyDict [(''file_path'', PyStr ''b.txt''), (''tokens'', PyInt 2)]],
       errors = [''Error reading locked/c.txt: [Errno 13] Permission denied: ''
                  @ quoted ''locked/c.txt''],
       total_tokens = 2,
       trace = [Read_text ''b.txt'', Encode ''cl100k_base'' ''hi'']\<rparr>"
    by (simp add: path_exists_def path_is_dir_def read_text_def call_encode_def
        multi_except_def demo_nodes demo_encoder_def start_def)
  show "fst (count_tokens_multi demo_tiktoken demo_fs [''locked/c.txt'', ''b.txt''] ''gpt-4'') =
     Inr (PyDict
       [(''files'', PyList [PyDict [(''file_path'', PyStr ''b.txt''), (''tokens'', PyInt 2)]]),
        (''total_tokens'', PyInt 2),
        (''file_count'', PyInt 1),
        (''model'', PyStr ''gpt-4''),
        (''encoding'', PyStr ''cl100k_base''),
        (''errors'', PyList [PyStr (''Error reading locked/c.txt: [Errno 13] Permission denied: ''
                                     @ quoted ''locked/c.txt'')])])"
    unfolding count_tokens_multi_resolved
      [of demo_tiktoken "''gpt-4''" "demo_encoder ''cl100k_base'' 100277", OF
        demo_gpt4 [THEN arg_cong [where f = fst], simplified]] m
    by (simp add: demo_encoder_def)
qed


section \<open>Missing files and directories\<close>

lemma count_file_tokens_except_truthy:
  "truthy (snd (count_file_tokens_except p e)) \<and> fst (count_file_tokens_except p e) = 0"
  by (simp add: count_file_tokens_except_def)

lemma count_file_tokens_except_names_path:
  "\<exists>pre post. snd (count_file_tokens_except p e) = Some (pre @ p @ post)"
proof -
  consider (missing) "cls e = FileNotFoundError"
    | (denied) "cls e \<noteq> FileNotFoundError" "cls e = PermissionError"
    | (undecoded) "cls e \<noteq> FileNotFoundError" "cls e \<noteq> PermissionError"
        "cls e = UnicodeDecodeError"
    | (other) "cls e \<noteq> FileNotFoundError" "cls e \<noteq> PermissionError"
        "cls e \<noteq> UnicodeDecodeError"
    by blast
  then show ?thesis
  proof cases
    case missing
    then have "snd (count_file_tokens_except p e) = Some (''File not found: '' @ p @ [])"
      by (simp add: count_file_tokens_except_def)
    then show ?thesis by blast
  next
    case denied
    then have "snd (count_file_tokens_except p e) = Some (''Permission denied: '' @ p @ [])"
      by (simp add: count_file_tokens_except_def)
    then show ?thesis by blast
  next
    case undecoded
    then have "snd (count_file_tokens_except p e) =
        Some (''Unable to decode file (not UTF-8): '' @ p @ [])"
      by (simp add: count_file_tokens_except_def)
    then show ?thesis by blast
  next
    case other
    then have "snd (count_file_tokens_except p e) =
        Some (''Error reading '' @ p @ ('': '' @ str e))"
      by (simp add: count_file_tokens_except_def)
    then show ?thesis by blast
  qed
qed

lemma count_file_tokens_absent:
  "node_at fs p = Absent e \<Longrightarrow>
   count_file_tokens fs p enc = (count_file_tokens_except p e, [Read_text p])"
  by (simp add: count_file_tokens_def read_text_def)

lemma process_files_absent:
  assumes "node_at fs p = Absent e"
  shows "process_files fs enc [p] start =
     Inr (start\<lparr>errors := [the (snd (count_file_tokens_except p e))],
               trace := [Read_text p]\<rparr>)"
proof -
  obtain n m where nm: "count_file_tokens_except p e = (n, m)"
    by (cases "count_file_tokens_except p e")
  then have "truthy m"
    using count_file_tokens_except_truthy [of p e] by simp
  then show ?thesis
    using assms nm by (simp add: path_is_dir_def count_file_tokens_absent [OF assms])
qed

lemma process_files_directory:
  "node_at fs p = Directory \<Longrightarrow>
   process_files fs enc [p] start =
     Inr (start\<lparr>errors := [''Skipping directory: '' @ p]\<rparr>)"
  by (simp add: path_is_dir_def)

lemma multi_loop_directory:
  "node_at fs p = Directory \<Longrightarrow>
   multi_loop fs enc [p] start = start\<lparr>errors := [''Path is a directory: '' @ p]\<rparr>"
  by (simp add: path_is_dir_def path_exists_def)

lemma main_resolved_plain:
  assumes "\<not> args_list_encodings a" and "args_files a = [p]" and "CHR ''*'' \<notin> set p"
    and "get_encoder lib (Some (args_model a)) (args_encoding a) = (Inr enc, evs)"
    and "process_files fs enc [p] start = Inr st"
  shows "main lib fs a =
     Returned (if results st = [] \<and> errors st \<noteq> [] then 1 else 0)
       ((if args_verbose a then
           [''Using encoding: '' @ name enc,
            ''Vocabulary size: '' @ format_number (n_vocab enc),
            replicate 50 CHR ''-'']
         else [])
        @ result_lines (results st) (total_tokens st))
       (error_lines (errors st))
       (evs @ trace st)"
proof -
  have "process_args fs enc [p] start = Inr st"
    using assms(3,5) by (simp del: process_files.simps)
  then show ?thesis
    using assms(1,2,4)
    by (simp add: main_def del: process_args.simps process_files.simps)
qed

lemma main_unresolved:
  assumes "\<not> args_list_encodings a" and "args_files a \<noteq> []"
    and "fst (get_encoder lib (Some (args_model a)) (args_encoding a)) = Inl e"
  shows "exit_status (main lib fs a) = 1"
proof -
  obtain evs where "get_encoder lib (Some (args_model a)) (args_encoding a) = (Inl e, evs)"
    using assms(3) by (cases "get_encoder lib (Some (args_model a)) (args_encoding a)") simp
  then show ?thesis
    using assms(1,2) by (simp add: main_def)
qed

lemma main_only_missing:
  assumes "node_at fs p = Absent e" and "CHR ''*'' \<notin> set p"
    and "\<not> args_list_encodings a" and "args_files a = [p]"
  shows "exit_status (main lib fs a) = 1"
proof (cases "get_encoder lib (Some (args_model a)) (args_encoding a)")
  case (Pair r evs)
  show ?thesis
  proof (cases r)
    case (Inl x)
    with Pair assms(3,4) show ?thesis
      using main_unresolved [of a lib x fs] by simp
  next
    case (Inr enc)
    with Pair show ?thesis
      using main_resolved_plain [OF assms(3,4,2) _ process_files_absent [OF assms(1)],
          of lib enc evs]
      by simp
  qed
qed

lemma mcp_count_tokens_absent:
  "node_at fs p = Absent e \<Longrightarrow>
   mcp_count_tokens lib fs p model =
     (Inr (PyDict [(''error'', PyStr (''File not found: '' @ p)),
                   (''file_path'', PyStr p),
                   (''tokens'', PyInt 0)]), [])"
  by (simp add: mcp_count_tokens_def mcp_count_tokens_try_def path_exists_def)

lemma mcp_count_tokens_directory:
  "node_at fs p = Directory \<Longrightarrow>
   mcp_count_tokens lib fs p model =
     (Inr (PyDict [(''error'', PyStr (''Path is a directory: '' @ p)),
                   (''file_path'', PyStr p),
                   (''tokens'', PyInt 0)]), [])"
  by (simp add: mcp_count_tokens_def mcp_count_tokens_try_def path_exists_def path_is_dir_def)

lemma error_lines_one: "error_lines [m] = [[], ''Errors:'', ''  '' @ m]"
  by (simp add: error_lines_def)

text \<open>
  Claim C6. For a path that names nothing: \<open>count_file_tokens\<close> returns what the
  \<open>except\<close> clauses give for the exception of the read, that is the count 0 and a
  message that contains the path, which is \<open>File not found: \<close> followed by the path
  when the read raises \<open>FileNotFoundError\<close>; the tool \<open>count_tokens\<close> returns a
  dictionary with \<open>File not found: \<close> and the path under \<open>error\<close> and
  \<open>tokens\<close> 0, without calling the library; and a counting run of \<open>main\<close> (no
  \<open>--list-encodings\<close>) whose only argument is that path, written without \<open>*\<close>,
  ends with exit status 1, the message being on the error stream when the encoder
  resolves.
\<close>

theorem missing_file_is_reported:
  "node_at fs p = Absent e \<longrightarrow>
     fst (count_file_tokens fs p enc) = count_file_tokens_except p e \<and>
     fst (count_file_tokens_except p e) = 0 \<and>
     (\<exists>pre post. snd (count_file_tokens_except p e) = Some (pre @ p @ post)) \<and>
     (cls e = FileNotFoundError \<longrightarrow>
        fst (count_file_tokens fs p enc) = (0, Some (''File not found: '' @ p))) \<and>
     mcp_count_tokens lib fs p model =
       (Inr (PyDict [(''error'', PyStr (''File not found: '' @ p)),
                     (''file_path'', PyStr p),
                     (''tokens'', PyInt 0)]), []) \<and>
     (CHR ''*'' \<notin> set p \<and> \<not> args_list_encodings a \<and> args_files a = [p] \<longrightarrow>
        exit_status (main lib fs a) = 1 \<and>
        (fst (get_encoder lib (Some (args_model a)) (args_encoding a)) = Inr enc \<longrightarrow>
           complaints (main lib fs a) =
             [[], ''Errors:'', ''  '' @ the (snd (count_file_tokens_except p e))]))"
proof (intro impI conjI)
  assume absent: "node_at fs p = Absent e"
  show r: "fst (count_file_tokens fs p enc) = count_file_tokens_except p e"
    by (simp add: count_file_tokens_absent [OF absent])
  show "fst (count_file_tokens_except p e) = 0"
    using count_file_tokens_except_truthy [of p e] by simp
  show "\<exists>pre post. snd (count_file_tokens_except p e) = Some (pre @ p @ post)"
    by (rule count_file_tokens_except_names_path)
  show "fst (count_file_tokens fs p enc) = (0, Some (''File not found: '' @ p))"
    if "cls e = FileNotFoundError"
    using that r by (simp add: count_file_tokens_except_def)
  show "mcp_count_tokens lib fs p model =
       (Inr (PyDict [(''error'', PyStr (''File not found: '' @ p)),
                     (''file_path'', PyStr p),
                     (''tokens'', PyInt 0)]), [])"
    by (rule mcp_count_tokens_absent [OF absent])
  assume run: "CHR ''*'' \<notin> set p \<and> \<not> args_list_encodings a \<and> args_files a = [p]"
  show "exit_status (main lib fs a) = 1"
    using main_only_missing [OF absent, of a lib] run by blast
  assume "fst (get_encoder lib (Some (args_model a)) (args_encoding a)) = Inr enc"
  then obtain evs where
    g: "get_encoder lib (Some (args_model a)) (args_encoding a) = (Inr enc, evs)"
    by (cases "get_encoder lib (Some (args_model a)) (args_encoding a)") simp
  have run1: "\<not> args_list_encodings a" "args_files a = [p]" "CHR ''*'' \<notin> set p"
    using run by simp_all
  show "complaints (main lib fs a) =
             [[], ''Errors:'', ''  '' @ the (snd (count_file_tokens_except p e))]"
    unfolding main_resolved_plain [OF run1 g process_files_absent [OF absent]]
    by (simp add: error_lines_one)
qed

text \<open>
  Claim C7. A path that names a directory only adds an error entry: in the command
  line's loop (\<open>Skipping directory\<close>) and in the tool's batch loop
  (\<open>Path is a directory\<close>), wherever the path stands in the list, the state after it
  is the state reached before it with the message appended, so nothing is added to the
  results, the total or the log of calls: the directory is neither read nor encoded. The
  tool \<open>count_tokens\<close> returns the error with \<open>tokens\<close> 0 and makes no call at
  all, and a run of \<open>main\<close> on the directory alone exits 1 having only resolved the
  encoder.
\<close>

theorem directory_is_skipped:
  "node_at fs d = Directory \<longrightarrow>
     process_files fs enc [d] start =
       Inr (start\<lparr>errors := [''Skipping directory: '' @ d]\<rparr>) \<and>
     process_files fs enc (xs @ d # ys) st =
       (case process_files fs enc xs st of
          Inl e \<Rightarrow> Inl e
        | Inr st' \<Rightarrow>
            process_files fs enc ys
              (st'\<lparr>errors := errors st' @ [''Skipping directory: '' @ d]\<rparr>)) \<and>
     multi_loop fs enc [d] start = start\<lparr>errors := [''Path is a directory: '' @ d]\<rparr> \<and>
     multi_loop fs enc (xs @ d # ys) mst =
       multi_loop fs enc ys
         ((multi_loop fs enc xs mst)
            \<lparr>errors := errors (multi_loop fs enc xs mst) @ [''Path is a directory: '' @ d]\<rparr>) \<and>
     mcp_count_tokens lib fs d model =
       (Inr (PyDict [(''error'', PyStr (''Path is a directory: '' @ d)),
                     (''file_path'', PyStr d),
                     (''tokens'', PyInt 0)]), []) \<and>
     (CHR ''*'' \<notin> set d \<and> \<not> args_list_encodings a \<and> args_files a = [d] \<and>
      get_encoder lib (Some (args_model a)) (args_encoding a) = (Inr enc, evs) \<longrightarrow>
        exit_status (main lib fs a) = 1 \<and>
        complaints (main lib fs a) = [[], ''Errors:'', ''  Skipping directory: '' @ d] \<and>
        calls (main lib fs a) = evs)"
proof (intro impI conjI)
  assume dir: "node_at fs d = Directory"
  show one: "process_files fs enc [d] start =
      Inr (start\<lparr>errors := [''Skipping directory: '' @ d]\<rparr>)"
    by (rule process_files_directory [OF dir])
  show "process_files fs enc (xs @ d # ys) st =
       (case process_files fs enc xs st of
          Inl e \<Rightarrow> Inl e
        | Inr st' \<Rightarrow>
            process_files fs enc ys
              (st'\<lparr>errors := errors st' @ [''Skipping directory: '' @ d]\<rparr>))"
    using dir
    by (simp add: process_files_append [of fs enc xs "d # ys" st] path_is_dir_def
        split: sum.splits)
  show "multi_loop fs enc [d] start = start\<lparr>errors := [''Path is a directory: '' @ d]\<rparr>"
    by (rule multi_loop_directory [OF dir])
  show "multi_loop fs enc (xs @ d # ys) mst =
       multi_loop fs enc ys
         ((multi_loop fs enc xs mst)
            \<lparr>errors := errors (multi_loop fs enc xs mst) @ [''Path is a directory: '' @ d]\<rparr>)"
    using dir
    by (simp add: multi_loop_append [of fs enc xs "d # ys" mst] path_is_dir_def path_exists_def)
  show "mcp_count_tokens lib fs d model =
       (Inr (PyDict [(''error'', PyStr (''Path is a directory: '' @ d)),
                     (''file_path'', PyStr d),
                     (''tokens'', PyInt 0)]), [])"
    by (rule mcp_count_tokens_directory [OF dir])
  assume run: "CHR ''*'' \<notin> set d \<and> \<not> args_list_encodings a \<and> args_files a = [d] \<and>
      get_encoder lib (Some (args_model a)) (args_encoding a) = (Inr enc, evs)"
  have run1: "\<not> args_list_encodings a" "args_files a = [d]" "CHR ''*'' \<notin> set d"
    "get_encoder lib (Some (args_model a)) (args_encoding a) = (Inr enc, evs)"
    using run by simp_all
  note m = main_resolved_plain [OF run1 one]
  show "exit_status (main lib fs a) = 1"
    unfolding m by simp
  show "complaints (main lib fs a) = [[], ''Errors:'', ''  Skipping directory: '' @ d]"
    unfolding m by (simp add: error_lines_one)
  show "calls (main lib fs a) = evs"
    unfolding m by simp
qed


theorem missing_file_is_reported_witness:
  "node_at demo_fs ''missing.txt'' =
     Absent (Exn FileNotFoundError
       (''[Errno 2] No such file or directory: '' @ quoted ''missing.txt'')) \<and>
   CHR ''*'' \<notin> set ''missing.txt'' \<and>
   \<not> args_list_encodings
     \<lparr>args_files = [''missing.txt''], args_model = ''gpt-4'', args_encoding = None,
      args_verbose = False, args_list_encodings = False\<rparr> \<and>
   fst (get_encoder demo_tiktoken (Some ''gpt-4'') None) =
     Inr (demo_encoder ''cl100k_base'' 100277) \<and>
   fst (count_file_tokens demo_fs ''missing.txt'' (demo_encoder ''cl100k_base'' 100277)) =
     (0, Some ''File not found: missing.txt'') \<and>
   fst (mcp_count_tokens demo_tiktoken demo_fs ''missing.txt'' ''gpt-4'') =
     Inr (PyDict [(''error'', PyStr ''File not found: missing.txt''),
                  (''file_path'', PyStr ''missing.txt''),
                  (''tokens'', PyInt 0)]) \<and>
   exit_status (main demo_tiktoken demo_fs
     \<lparr>args_files = [''missing.txt''], args_model = ''gpt-4'', args_encoding = None,
      args_verbose = False, args_list_encodings = False\<rparr>) = 1 \<and>
   complaints (main demo_tiktoken demo_fs
     \<lparr>args_files = [''missing.txt''], args_model = ''gpt-4'', args_encoding = None,
      args_verbose = False, args_list_encodings = False\<rparr>) =
     [[], ''Errors:'', ''  File not found: missing.txt''] \<and>
   node_at demo_fs ''a.txt/x'' =
     Absent (Exn NotADirectoryError (''[Errno 20] Not a directory: '' @ quoted ''a.txt/x'')) \<and>
   fst (count_file_tokens demo_fs ''a.txt/x'' (demo_encoder ''cl100k_base'' 100277)) =
     (0, Some (''Error reading a.txt/x: [Errno 20] Not a directory: '' @ quoted ''a.txt/x''))"
proof -
  let ?enc = "demo_encoder ''cl100k_base'' 100277"
  let ?a = "\<lparr>args_files = [''missing.txt''], args_model = ''gpt-4'', args_encoding = None,
      args_verbose = False, args_list_encodings = False\<rparr>"
  let ?e = "Exn FileNotFoundError
       (''[Errno 2] No such file or directory: '' @ quoted ''missing.txt'')"
  let ?e' = "Exn NotADirectoryError (''[Errno 20] Not a directory: '' @ quoted ''a.txt/x'')"
  have h0: "node_at demo_fs ''missing.txt'' = Absent ?e"
    by (simp add: demo_nodes)
  have h0': "node_at demo_fs ''a.txt/x'' = Absent ?e'"
    by (simp add: demo_nodes)
  have h1: "CHR ''*'' \<notin> set ''missing.txt'' \<and> \<not> args_list_encodings ?a \<and>
      args_files ?a = [''missing.txt'']"
    by simp
  have h2: "fst (get_encoder demo_tiktoken (Some (args_model ?a)) (args_encoding ?a)) = Inr ?enc"
    by (simp add: demo_cli_gpt4)
  have h3: "cls ?e = FileNotFoundError"
    by simp
  note T = missing_file_is_reported
      [where fs = demo_fs and p = "''missing.txt''" and e = ?e and enc = ?enc
         and lib = demo_tiktoken and model = "''gpt-4''" and a = ?a, THEN mp, OF h0]
  note T' = missing_file_is_reported
      [where fs = demo_fs and p = "''a.txt/x''" and e = ?e' and enc = ?enc
         and lib = demo_tiktoken and model = "''gpt-4''" and a = ?a, THEN mp, OF h0']
  have t1: "fst (count_file_tokens demo_fs ''missing.txt'' ?enc) =
      (0, Some ''File not found: missing.txt'')"
    using T [THEN conjunct2, THEN conjunct2, THEN conjunct2, THEN conjunct1, THEN mp, OF h3]
    by simp
  have t2: "fst (mcp_count_tokens demo_tiktoken demo_fs ''missing.txt'' ''gpt-4'') =
     Inr (PyDict [(''error'', PyStr ''File not found: missing.txt''),
                  (''file_path'', PyStr ''missing.txt''),
                  (''tokens'', PyInt 0)])"
    using T [THEN conjunct2, THEN conjunct2, THEN conjunct2, THEN conjunct2, THEN conjunct1]
    by simp
  note R = T [THEN conjunct2, THEN conjunct2, THEN conjunct2, THEN conjunct2, THEN conjunct2,
              THEN mp, OF h1]
  have t3: "exit_status (main demo_tiktoken demo_fs ?a) = 1"
    using R [THEN conjunct1] .
  have t4: "complaints (main demo_tiktoken demo_fs ?a) =
      [[], ''Errors:'', ''  File not found: missing.txt'']"
    using R [THEN conjunct2, THEN mp, OF h2] by (simp add: count_file_tokens_except_def)
  have t5: "fst (count_file_tokens demo_fs ''a.txt/x'' ?enc) =
      (0, Some (''Error reading a.txt/x: [Errno 20] Not a directory: '' @ quoted ''a.txt/x''))"
    using T' [THEN conjunct1] by (simp add: count_file_tokens_except_def)
  have h2': "fst (get_encoder demo_tiktoken (Some ''gpt-4'') None) = Inr ?enc"
    using h2 by simp
  show ?thesis
    using h0 h0' h1 h2' t1 t2 t3 t4 t5 by blast
qed

theorem directory_is_skipped_witness:
  "node_at demo_fs ''docs'' = Directory \<and>
   CHR ''*'' \<notin> set ''docs'' \<and>
   get_encoder demo_tiktoken (Some ''gpt-4'') None =
     (Inr (demo_encoder ''cl100k_base'' 100277), [Get_encoding ''cl100k_base'']) \<and>
   process_files demo_fs (demo_encoder ''cl100k_base'' 100277) [''docs''] start =
     Inr (start\<lparr>errors := [''Skipping directory: docs'']\<rparr>) \<and>
   trace (multi_loop demo_fs (demo_encoder ''cl100k_base'' 100277) [''docs''] start) = [] \<and>
   process_files demo_fs (demo_encoder ''cl100k_base'' 100277) [''docs'', ''b.txt''] start =
     Inr \<lparr>results = [(''b.txt'', 2)], errors = [''Skipping directory: docs''],
          total_tokens = 2, trace = [Read_text ''b.txt'', Encode ''cl100k_base'' ''hi'']\<rparr> \<and>
   results (multi_loop demo_fs (demo_encoder ''cl100k_base'' 100277) [''docs'', ''b.txt''] start) =
     [PyDict [(''file_path'', PyStr ''b.txt''), (''tokens'', PyInt 2)]] \<and>
   mcp_count_tokens demo_tiktoken demo_fs ''docs'' ''gpt-4'' =
     (Inr (PyDict [(''error'', PyStr ''Path is a directory: docs''),
                   (''file_path'', PyStr ''docs''),
                   (''tokens'', PyInt 0)]), []) \<and>
   exit_status (main demo_tiktoken demo_fs
     \<lparr>args_files = [''docs''], args_model = ''gpt-4'', args_encoding = None,
      args_verbose = False, args_list_encodings = False\<rparr>) = 1 \<and>
   calls (main demo_tiktoken demo_fs
     \<lparr>args_files = [''docs''], args_model = ''gpt-4'', args_encoding = None,
      args_verbose = False, args_list_encodings = False\<rparr>) = [Get_encoding ''cl100k_base'']"
proof -
  let ?enc = "demo_encoder ''cl100k_base'' 100277"
  let ?a = "\<lparr>args_files = [''docs''], args_model = ''gpt-4'', args_encoding = None,
      args_verbose = False, args_list_encodings = False\<rparr>"
  have h0: "node_at demo_fs ''docs'' = Directory"
    by (simp add: demo_nodes)
  have g: "get_encoder demo_tiktoken (Some ''gpt-4'') None =
      (Inr ?enc, [Get_encoding ''cl100k_base''])"
    by (rule demo_cli_gpt4)
  have h1: "CHR ''*'' \<notin> set ''docs'' \<and> \<not> args_list_encodings ?a \<and> args_files ?a = [''docs''] \<and>
      get_encoder demo_tiktoken (Some (args_model ?a)) (args_encoding ?a) =
        (Inr ?enc, [Get_encoding ''cl100k_base''])"
    using g by simp
  note T = directory_is_skipped
      [where fs = demo_fs and d = "''docs''" and enc = ?enc and lib = demo_tiktoken
         and model = "''gpt-4''" and a = ?a and xs = "[]" and ys = "[''b.txt'']"
         and st = start and mst = start and evs = "[Get_encoding ''cl100k_base'']",
       THEN mp, OF h0]
  have t1: "process_files demo_fs ?enc [''docs''] start =
      Inr (start\<lparr>errors := [''Skipping directory: docs'']\<rparr>)"
    using T [THEN conjunct1] by simp
  have t2: "trace (multi_loop demo_fs ?enc [''docs''] start) = []"
    unfolding T [THEN conjunct2, THEN conjunct2, THEN conjunct1] by simp
  have t3: "process_files demo_fs ?enc [''docs'', ''b.txt''] start =
      Inr \<lparr>results = [(''b.txt'', 2)], errors = [''Skipping directory: docs''],
          total_tokens = 2, trace = [Read_text ''b.txt'', Encode ''cl100k_base'' ''hi'']\<rparr>"
    using T [THEN conjunct2, THEN conjunct1]
    by (simp add: path_is_dir_def read_text_def call_encode_def count_file_tokens_def
        count_tokens_def demo_nodes demo_encoder_def start_def)
  have t4: "results (multi_loop demo_fs ?enc [''docs'', ''b.txt''] start) =
      [PyDict [(''file_path'', PyStr ''b.txt''), (''tokens'', PyInt 2)]]"
    using T [THEN conjunct2, THEN conjunct2, THEN conjunct2, THEN conjunct1]
    by (simp add: path_exists_def path_is_dir_def read_text_def call_encode_def
        demo_nodes demo_encoder_def)
  have t5: "mcp_count_tokens demo_tiktoken demo_fs ''docs'' ''gpt-4'' =
     (Inr (PyDict [(''error'', PyStr ''Path is a directory: docs''),
                   (''file_path'', PyStr ''docs''),
                   (''tokens'', PyInt 0)]), [])"
    using T [THEN conjunct2, THEN conjunct2, THEN conjunct2, THEN conjunct2, THEN conjunct1]
    by simp
  note R = T [THEN conjunct2, THEN conjunct2, THEN conjunct2, THEN conjunct2, THEN conjunct2,
              THEN mp, OF h1]
  have t6: "exit_status (main demo_tiktoken demo_fs ?a) = 1"
    using R [THEN conjunct1] .
  have t7: "calls (main demo_tiktoken demo_fs ?a) = [Get_encoding ''cl100k_base'']"
    using R [THEN conjunct2, THEN conjunct2] .
  have h1': "CHR ''*'' \<notin> set ''docs''"
    by simp
  show ?thesis
    using h0 h1' g t1 t2 t3 t4 t5 t6 t7 by blast
qed

section \<open>Single files, texts and the empty batch\<close>

lemma count_file_tokens_except_zero:
  "fst (count_file_tokens_except p e) = 0 \<and>
   (\<exists>msg. snd (count_file_tokens_except p e) = Some msg \<and> msg \<noteq> [])"
  by (simp add: count_file_tokens_except_def)

lemma count_file_tokens_cases:
  "(\<exists>content toks. fst (read_text fs p) = Inr content \<and> encode enc content = Inr toks \<and>
       fst (count_file_tokens fs p enc) = (length toks, None)) \<or>
   (\<exists>e. fst (read_text fs p) = Inl e \<and>
       fst (count_file_tokens fs p enc) = count_file_tokens_except p e) \<or>
   (\<exists>content e. fst (read_text fs p) = Inr content \<and> encode enc content = Inl e \<and>
       fst (count_file_tokens fs p enc) = count_file_tokens_except p e)"
proof (cases "read_text fs p")
  case (Pair r evs)
  show ?thesis
  proof (cases r)
    case (Inl e)
    with Pair show ?thesis by (simp add: count_file_tokens_def)
  next
    case (Inr content)
    show ?thesis
    proof (cases "encode enc content")
      case (Inl e)
      with Pair \<open>r = Inr content\<close> show ?thesis
        by (simp add: count_file_tokens_def count_tokens_def call_encode_def)
    next
      case (Inr toks)
      with Pair \<open>r = Inr content\<close> show ?thesis
        by (simp add: count_file_tokens_def count_tokens_def call_encode_def)
    qed
  qed
qed

text \<open>
  Claim C9. \<open>count_file_tokens\<close> always returns a pair. When the file is read and its
  content encoded, the pair is the number of tokens of the content and no message, and
  only then is the message absent. In every other case, whatever the class of the
  exception that the read or the encoding raised, the pair is what the \<open>except\<close>
  clauses give: the count 0 and a message that is not empty. So a message implies the
  count 0.
\<close>

theorem count_file_tokens_never_raises:
  "(\<forall>content toks.
      fst (read_text fs p) = Inr content \<and> encode enc content = Inr toks \<longrightarrow>
      fst (count_file_tokens fs p enc) = (length toks, None)) \<and>
   (snd (fst (count_file_tokens fs p enc)) = None \<longrightarrow>
      (\<exists>content toks. fst (read_text fs p) = Inr content \<and> encode enc content = Inr toks \<and>
         fst (fst (count_file_tokens fs p enc)) = length toks)) \<and>
   (\<forall>msg. snd (fst (count_file_tokens fs p enc)) = Some msg \<longrightarrow>
      msg \<noteq> [] \<and> fst (fst (count_file_tokens fs p enc)) = 0 \<and>
      ((\<exists>e. fst (read_text fs p) = Inl e) \<or>
       (\<exists>content e. fst (read_text fs p) = Inr content \<and> encode enc content = Inl e))) \<and>
   (\<forall>e. fst (read_text fs p) = Inl e \<or>
        (\<exists>content. fst (read_text fs p) = Inr content \<and> encode enc content = Inl e) \<longrightarrow>
      fst (count_file_tokens fs p enc) = count_file_tokens_except p e \<and>
      fst (count_file_tokens_except p e) = 0 \<and>
      (\<exists>msg. snd (count_file_tokens_except p e) = Some msg \<and> msg \<noteq> []))"
proof -
  let ?r = "fst (count_file_tokens fs p enc)"
  consider
    (ok) content toks where "fst (read_text fs p) = Inr content" "encode enc content = Inr toks"
      "?r = (length toks, None)"
  | (unread) e where "fst (read_text fs p) = Inl e" "?r = count_file_tokens_except p e"
  | (unencoded) content e where "fst (read_text fs p) = Inr content"
      "encode enc content = Inl e" "?r = count_file_tokens_except p e"
    using count_file_tokens_cases [of fs p enc] by blast
  then show ?thesis
  proof cases
    case ok
    then show ?thesis by auto
  next
    case unread
    obtain msg where "count_file_tokens_except p e = (0, Some msg)" "msg \<noteq> []"
      using count_file_tokens_except_zero [of p e]
      by (cases "count_file_tokens_except p e") auto
    with unread show ?thesis by auto
  next
    case unencoded
    obtain msg where "count_file_tokens_except p e = (0, Some msg)" "msg \<noteq> []"
      using count_file_tokens_except_zero [of p e]
      by (cases "count_file_tokens_except p e") auto
    with unencoded show ?thesis by auto
  qed
qed


lemma demo_read:
  "fst (read_text demo_fs ''a.txt'') = Inr ''hello world''"
  "fst (read_text demo_fs ''raw.bin'') = Inl (Exn UnicodeDecodeError ''invalid start byte'')"
  by (simp_all add: read_text_def demo_nodes)

theorem count_file_tokens_never_raises_witness:
  "fst (read_text demo_fs ''a.txt'') = Inr ''hello world'' \<and>
   encode (demo_encoder ''cl100k_base'' 100277) ''hello world'' =
     Inr (map of_char ''hello world'') \<and>
   fst (count_file_tokens demo_fs ''a.txt'' (demo_encoder ''cl100k_base'' 100277)) = (11, None) \<and>
   fst (read_text demo_fs ''raw.bin'') = Inl (Exn UnicodeDecodeError ''invalid start byte'') \<and>
   fst (count_file_tokens demo_fs ''raw.bin'' (demo_encoder ''cl100k_base'' 100277)) =
     (0, Some ''Unable to decode file (not UTF-8): raw.bin'')"
proof -
  let ?enc = "demo_encoder ''cl100k_base'' 100277"
  have e: "encode ?enc ''hello world'' = Inr (map of_char ''hello world'')"
    by (simp add: demo_encoder_def)
  have t1: "fst (count_file_tokens demo_fs ''a.txt'' ?enc) =
      (length (map of_char ''hello world'' :: nat list), None)"
    using count_file_tokens_never_raises [of demo_fs "''a.txt''" ?enc,
        THEN conjunct1, THEN spec, THEN spec, THEN mp, OF conjI, OF demo_read(1) e] .
  have t2: "fst (count_file_tokens demo_fs ''raw.bin'' ?enc) =
      count_file_tokens_except ''raw.bin'' (Exn UnicodeDecodeError ''invalid start byte'')"
    using count_file_tokens_never_raises [of demo_fs "''raw.bin''" ?enc,
        THEN conjunct2, THEN conjunct2, THEN conjunct2, THEN spec, THEN mp,
        OF disjI1, OF demo_read(2), THEN conjunct1] .
  show ?thesis
    using demo_read e t1 t2 by (simp add: count_file_tokens_except_def)
qed

text \<open>
  Claim C8. On the empty string, with a model whose encoder resolves and an encoder that
  gives the empty text no token, \<open>count_text_tokens\<close> returns a dictionary whose
  \<open>tokens\<close> is 0 and whose \<open>characters\<close> is 0. Whatever the encoder does,
  \<open>characters\<close> is 0 in any dictionary it returns for the empty string.
\<close>

theorem count_text_tokens_empty:
  "(fst (mcp_get_encoder lib (Some model) None) = Inr enc \<and> encode enc [] = Inr [] \<longrightarrow>
      (\<exists>d. fst (count_text_tokens lib [] model) = Inr d \<and>
         field d ''tokens'' = Some (PyInt 0) \<and>
         field d ''characters'' = Some (PyInt 0))) \<and>
   (fst (count_text_tokens lib [] model) = Inr d' \<longrightarrow>
      field d' ''characters'' = Some (PyInt 0))"
proof (intro conjI impI)
  assume "fst (mcp_get_encoder lib (Some model) None) = Inr enc \<and> encode enc [] = Inr []"
  moreover from this obtain evs where "mcp_get_encoder lib (Some model) None = (Inr enc, evs)"
    by (cases "mcp_get_encoder lib (Some model) None") simp
  ultimately show "\<exists>d. fst (count_text_tokens lib [] model) = Inr d \<and>
         field d ''tokens'' = Some (PyInt 0) \<and>
         field d ''characters'' = Some (PyInt 0)"
    by (simp add: count_text_tokens_def call_encode_def)
next
  assume "fst (count_text_tokens lib [] model) = Inr d'"
  then show "field d' ''characters'' = Some (PyInt 0)"
    by (auto simp add: count_text_tokens_def call_encode_def split: prod.splits sum.splits)
qed

theorem count_text_tokens_empty_witness:
  "fst (mcp_get_encoder demo_tiktoken (Some ''gpt-4'') None) =
     Inr (demo_encoder ''cl100k_base'' 100277) \<and>
   encode (demo_encoder ''cl100k_base'' 100277) [] = Inr [] \<and>
   fst (count_text_tokens demo_tiktoken [] ''gpt-4'') =
     Inr (PyDict [(''tokens'', PyInt 0), (''characters'', PyInt 0),
                  (''model'', PyStr ''gpt-4''), (''encoding'', PyStr ''cl100k_base'')]) \<and>
   (\<exists>d. fst (count_text_tokens demo_tiktoken [] ''gpt-4'') = Inr d \<and>
        field d ''tokens'' = Some (PyInt 0) \<and>
        field d ''characters'' = Some (PyInt 0))"
proof -
  let ?enc = "demo_encoder ''cl100k_base'' 100277"
  have h: "fst (mcp_get_encoder demo_tiktoken (Some ''gpt-4'') None) = Inr ?enc \<and>
      encode ?enc [] = Inr []"
    by (simp add: demo_gpt4 demo_encoder_def)
  have t: "\<exists>d. fst (count_text_tokens demo_tiktoken [] ''gpt-4'') = Inr d \<and>
        field d ''tokens'' = Some (PyInt 0) \<and>
        field d ''characters'' = Some (PyInt 0)"
    using count_text_tokens_empty [of demo_tiktoken "''gpt-4''" ?enc,
        THEN conjunct1, THEN mp, OF h] .
  have v: "fst (count_text_tokens demo_tiktoken [] ''gpt-4'') =
     Inr (PyDict [(''tokens'', PyInt 0), (''characters'', PyInt 0),
                  (''model'', PyStr ''gpt-4''), (''encoding'', PyStr ''cl100k_base'')])"
    by (simp add: count_text_tokens_def demo_gpt4 call_encode_def demo_encoder_def)
  show ?thesis
    using h t v by blast
qed

text \<open>
  Claim C10. On the empty list of paths, with a model whose encoder resolves,
  \<open>count_tokens_multi\<close> returns the dictionary with \<open>files\<close> the empty list,
  \<open>total_tokens\<close> 0, \<open>file_count\<close> 0 and \<open>errors\<close> \<open>None\<close>, and makes no
  call but the resolution.
\<close>

theorem count_tokens_multi_empty:
  "fst (mcp_get_encoder lib (Some model) None) = Inr enc \<longrightarrow>
     fst (count_tokens_multi lib fs [] model) =
       Inr (PyDict [(''files'', PyList []),
                    (''total_tokens'', PyInt 0),
                    (''file_count'', PyInt 0),
                    (''model'', PyStr model),
                    (''encoding'', PyStr (name enc)),
                    (''errors'', PyNone)]) \<and>
     snd (count_tokens_multi lib fs [] model) = snd (mcp_get_encoder lib (Some model) None)"
proof
  assume "fst (mcp_get_encoder lib (Some model) None) = Inr enc"
  then obtain evs where "mcp_get_encoder lib (Some model) None = (Inr enc, evs)"
    by (cases "mcp_get_encoder lib (Some model) None") simp
  then show "fst (count_tokens_multi lib fs [] model) =
       Inr (PyDict [(''files'', PyList []),
                    (''total_tokens'', PyInt 0),
                    (''file_count'', PyInt 0),
                    (''model'', PyStr model),
                    (''encoding'', PyStr (name enc)),
                    (''errors'', PyNone)]) \<and>
     snd (count_tokens_multi lib fs [] model) = snd (mcp_get_encoder lib (Some model) None)"
    by (simp add: count_tokens_multi_def Let_def)
qed

theorem count_tokens_multi_empty_witness:
  "fst (mcp_get_encoder demo_tiktoken (Some ''gpt-4'') None) =
     Inr (demo_encoder ''cl100k_base'' 100277) \<and>
   fst (count_tokens_multi demo_tiktoken demo_fs [] ''gpt-4'') =
       Inr (PyDict [(''files'', PyList []),
                    (''total_tokens'', PyInt 0),
                    (''file_count'', PyInt 0),
                    (''model'', PyStr ''gpt-4''),
                    (''encoding'', PyStr ''cl100k_base''),
                    (''errors'', PyNone)])"
proof -
  let ?enc = "demo_encoder ''cl100k_base'' 100277"
  have h: "fst (mcp_get_encoder demo_tiktoken (Some ''gpt-4'') None) = Inr ?enc"
    by (simp add: demo_gpt4)
  have nm: "name ?enc = ''cl100k_base''"
    by (simp add: demo_encoder_def)
  show ?thesis
    using h count_tokens_multi_empty [of demo_tiktoken "''gpt-4''" ?enc demo_fs,
        THEN mp, OF h, THEN conjunct1]
    unfolding nm by simp
qed

section \<open>Failures of encoder resolution\<close>

lemma mcp_count_tokens_returns:
  "\<exists>d. fst (mcp_count_tokens lib fs file_path model) = Inr d"
  by (cases "mcp_count_tokens_try lib fs file_path model")
     (auto simp add: mcp_count_tokens_def split: sum.splits)

lemma unresolved_model_escapes:
  assumes "fst (mcp_get_encoder lib (Some model) None) = Inl e"
  shows "fst (count_text_tokens lib text model) = Inl e"
    and "fst (count_tokens_multi lib fs file_paths model) = Inl e"
proof -
  obtain evs where "mcp_get_encoder lib (Some model) None = (Inl e, evs)"
    using assms by (cases "mcp_get_encoder lib (Some model) None") simp
  then show "fst (count_text_tokens lib text model) = Inl e"
    and "fst (count_tokens_multi lib fs file_paths model) = Inl e"
    by (simp_all add: count_text_tokens_def count_tokens_multi_def)
qed

lemma list_encodings_escapes:
  assumes "list_encoding_names lib = n # ns" and "get_encoding lib n = Inl e"
  shows "fst (list_encodings lib) = Inl e"
  using assms by (simp add: list_encodings_def call_get_encoding_def)

lemma demo_unknown_model:
  "mcp_get_encoder demo_tiktoken (Some ''no-such-model'') None =
     (Inl (Exn KeyError ''Could not automatically map no-such-model to a tokeniser.''),
      [Encoding_for_model ''no-such-model''])"
  by (simp add: mcp_get_encoder_def mcp_MODEL_ENCODINGS_def call_encoding_for_model_def
      demo_tiktoken_def)

text \<open>
  Claim C5. The tool \<open>count_tokens\<close> resolves the encoder inside its \<open>try\<close>, so
  a model that the library cannot resolve comes back as an \<open>error\<close> entry with
  \<open>tokens\<close> 0. \<open>count_text_tokens\<close> has no handler and \<open>count_tokens_multi\<close>
  resolves the encoder before its loop's \<open>try\<close>: on the same model the exception
  that the library raises leaves both tool functions.
\<close>

theorem tool_exception_escapes:
  "fst (count_text_tokens demo_tiktoken ''hello'' ''no-such-model'') =
     Inl (Exn KeyError ''Could not automatically map no-such-model to a tokeniser.'') \<and>
   fst (count_tokens_multi demo_tiktoken demo_fs [''a.txt''] ''no-such-model'') =
     Inl (Exn KeyError ''Could not automatically map no-such-model to a tokeniser.'') \<and>
   fst (mcp_count_tokens demo_tiktoken demo_fs ''a.txt'' ''no-such-model'') =
     Inr (PyDict
       [(''error'', PyStr ''Could not automatically map no-such-model to a tokeniser.''),
        (''file_path'', PyStr ''a.txt''),
        (''tokens'', PyInt 0)])"
proof (intro conjI)
  have u: "fst (mcp_get_encoder demo_tiktoken (Some ''no-such-model'') None) =
      Inl (Exn KeyError ''Could not automatically map no-such-model to a tokeniser.'')"
    by (simp add: demo_unknown_model)
  show "fst (count_text_tokens demo_tiktoken ''hello'' ''no-such-model'') =
     Inl (Exn KeyError ''Could not automatically map no-such-model to a tokeniser.'')"
    by (rule unresolved_model_escapes(1) [OF u])
  show "fst (count_tokens_multi demo_tiktoken demo_fs [''a.txt''] ''no-such-model'') =
     Inl (Exn KeyError ''Could not automatically map no-such-model to a tokeniser.'')"
    by (rule unresolved_model_escapes(2) [OF u])
  show "fst (mcp_count_tokens demo_tiktoken demo_fs ''a.txt'' ''no-such-model'') =
     Inr (PyDict
       [(''error'', PyStr ''Could not automatically map no-such-model to a tokeniser.''),
        (''file_path'', PyStr ''a.txt''),
        (''tokens'', PyInt 0)])"
    by (simp add: mcp_count_tokens_def mcp_count_tokens_try_def path_exists_def
        path_is_dir_def demo_nodes demo_unknown_model)
qed

lemma main_exit_code:
  assumes "\<not> args_list_encodings a" and "args_files a \<noteq> []"
    and "get_encoder lib (Some (args_model a)) (args_encoding a) = (Inr enc, evs)"
    and "process_args fs enc (args_files a) start = Inr st"
  shows "exit_status (main lib fs a) = (if results st = [] \<and> errors st \<noteq> [] then 1 else 0)"
  using assms by (simp add: main_def del: process_args.simps)

lemma main_key_error:
  assumes "\<not> args_list_encodings a" and "args_files a \<noteq> []"
    and "get_encoder lib (Some (args_model a)) (args_encoding a) = (Inl e, evs)"
    and "cls e = KeyError"
  shows "main lib fs a =
     Returned 1
       [''Error: Unknown model or encoding: '' @ str e,
        ''Use --list-encodings to see available options.''] [] evs"
  using assms by (simp add: main_def)

lemma main_other_error:
  assumes "\<not> args_list_encodings a" and "args_files a \<noteq> []"
    and "get_encoder lib (Some (args_model a)) (args_encoding a) = (Inl e, evs)"
    and "cls e \<noteq> KeyError"
  shows "main lib fs a = Raised e"
  using assms by (simp add: main_def)

text \<open>
  Claim C2. \<open>main\<close> catches \<open>KeyError\<close> only. An unknown model, for which the
  library raises \<open>KeyError\<close>, gives the message
  \<open>Error: Unknown model or encoding\<close> and the return value 1. An unknown encoding
  name, for which the library raises \<open>ValueError\<close>, is not caught: the exception
  leaves \<open>main\<close> and no message of the program is printed.
\<close>

theorem main_unknown_encoding_uncaught:
  "main demo_tiktoken demo_fs
     \<lparr>args_files = [''a.txt''], args_model = ''gpt-5'', args_encoding = Some ''bogus'',
      args_verbose = False, args_list_encodings = False\<rparr> =
     Raised (Exn ValueError ''Unknown encoding bogus'') \<and>
   main demo_tiktoken demo_fs
     \<lparr>args_files = [''a.txt''], args_model = ''bogus'', args_encoding = None,
      args_verbose = False, args_list_encodings = False\<rparr> =
     Returned 1
       [''Error: Unknown model or encoding: Could not automatically map bogus to a tokeniser.'',
        ''Use --list-encodings to see available options.'']
       [] [Encoding_for_model ''bogus'']"
proof
  have g1: "get_encoder demo_tiktoken (Some ''gpt-5'') (Some ''bogus'') =
      (Inl (Exn ValueError ''Unknown encoding bogus''), [Get_encoding ''bogus''])"
    by (simp add: get_encoder_def call_get_encoding_def demo_tiktoken_def)
  show "main demo_tiktoken demo_fs
     \<lparr>args_files = [''a.txt''], args_model = ''gpt-5'', args_encoding = Some ''bogus'',
      args_verbose = False, args_list_encodings = False\<rparr> =
     Raised (Exn ValueError ''Unknown encoding bogus'')"
    using g1 by (intro main_other_error) simp_all
  have g2: "get_encoder demo_tiktoken (Some ''bogus'') None =
      (Inl (Exn KeyError ''Could not automatically map bogus to a tokeniser.''),
       [Encoding_for_model ''bogus''])"
    by (simp add: get_encoder_def MODEL_ENCODINGS_def call_encoding_for_model_def
        demo_tiktoken_def)
  show "main demo_tiktoken demo_fs
     \<lparr>args_files = [''a.txt''], args_model = ''bogus'', args_encoding = None,
      args_verbose = False, args_list_encodings = False\<rparr> =
     Returned 1
       [''Error: Unknown model or encoding: Could not automatically map bogus to a tokeniser.'',
        ''Use --list-encodings to see available options.'']
       [] [Encoding_for_model ''bogus'']"
    using main_key_error [of _ demo_tiktoken
        "Exn KeyError ''Could not automatically map bogus to a tokeniser.''"
        "[Encoding_for_model ''bogus'']" demo_fs] g2
    by simp
qed

end
